theory Spec2Isabelle
  imports Main
begin

section \<open>The payments controller of opencollective-api\<close>

text \<open>
  The source is \<^verbatim>\<open>src/app/controllers/payments.js\<close>. It exports three request handlers
  (\<^verbatim>\<open>post\<close>, \<^verbatim>\<open>paypalDonation\<close>, \<^verbatim>\<open>paypalCallback\<close>) and the helper
  \<^verbatim>\<open>getOrCreatePlan\<close>. Each handler validates the request and then runs a graph of
  named steps with \<^verbatim>\<open>async.auto\<close>.

  The embedding makes every effect explicit:
  \<^item> local storage is a record of tables (lists of rows);
  \<^item> every call to a provider SDK or to the mailer is appended to a log of calls;
  \<^item> what a collaborator answers (a provider, the storage engine, the mailer) is not decided
    by the controller, so it is a parameter: the record \<open>env\<close> holds one answer per call site;
  \<^item> a step of the graph either calls its callback with a result (\<open>Done\<close>), calls it with an
    error (\<open>Fail\<close>), returns without ever calling it (\<open>Hang\<close>), or throws (\<open>Throw\<close>).
\<close>

subsection \<open>JavaScript values\<close>

text \<open>An error object of a collaborator, with the two fields the controller reads.\<close>

record js_err =
  e_type :: "string option"
  e_message :: "string option"

text \<open>
  \<open>BadRequest\<close> is the controller's own \<^verbatim>\<open>new errors.BadRequest(msg)\<close>; \<open>Upstream\<close> is an
  error handed over by a collaborator; \<open>TypeError\<close> is a property read on \<^verbatim>\<open>null\<close> or
  \<^verbatim>\<open>undefined\<close> inside a promise chain that ends in \<^verbatim>\<open>.catch(cb)\<close>.
\<close>

datatype error = BadRequest string | Upstream js_err | TypeError string

text \<open>Truthiness of a possibly missing string or number, as \<^verbatim>\<open>!x\<close> and \<^verbatim>\<open>x || y\<close> read it.\<close>

fun truthy_str :: "string option \<Rightarrow> bool" where
  "truthy_str None = False"
| "truthy_str (Some x) = (x \<noteq> [])"

fun truthy_int :: "int option \<Rightarrow> bool" where
  "truthy_int None = False"
| "truthy_int (Some n) = (n \<noteq> 0)"

text \<open>\<^verbatim>\<open>x || y\<close>: the left operand when it is truthy, the right one otherwise.\<close>

fun str_or :: "string option \<Rightarrow> string \<Rightarrow> string" where
  "str_or None y = y"
| "str_or (Some x) y = (if x \<noteq> [] then x else y)"

fun int_or :: "int option \<Rightarrow> int \<Rightarrow> int" where
  "int_or None y = y"
| "int_or (Some n) y = (if n \<noteq> 0 then n else y)"

text \<open>String concatenation with a possibly undefined operand.\<close>

fun str_of :: "string option \<Rightarrow> string" where
  "str_of None = ''undefined''"
| "str_of (Some x) = x"

primrec starts_with :: "string \<Rightarrow> string \<Rightarrow> bool" where
  "starts_with [] ys = True"
| "starts_with (x # xs) ys = (case ys of [] \<Rightarrow> False | y # ys' \<Rightarrow> x = y \<and> starts_with xs ys')"

text \<open>\<^verbatim>\<open>_.contains(str, pat)\<close> on strings: \<open>pat\<close> occurs in \<open>str\<close>.\<close>

primrec str_contains :: "string \<Rightarrow> string \<Rightarrow> bool" where
  "str_contains [] pat = (pat = [])"
| "str_contains (c # cs) pat = (starts_with pat (c # cs) \<or> str_contains cs pat)"

text \<open>\<^verbatim>\<open>_.contains(x, pat)\<close> where \<open>x\<close> may be \<^verbatim>\<open>null\<close>: lodash answers false then.\<close>

fun contains_opt :: "string option \<Rightarrow> string \<Rightarrow> bool" where
  "contains_opt None pat = False"
| "contains_opt (Some x) pat = str_contains x pat"

definition lower_char :: "char \<Rightarrow> char" where
  "lower_char c =
     (case map_of (zip ''ABCDEFGHIJKLMNOPQRSTUVWXYZ'' ''abcdefghijklmnopqrstuvwxyz'') c of
        Some d \<Rightarrow> d | None \<Rightarrow> c)"

definition upper_char :: "char \<Rightarrow> char" where
  "upper_char c =
     (case map_of (zip ''abcdefghijklmnopqrstuvwxyz'' ''ABCDEFGHIJKLMNOPQRSTUVWXYZ'') c of
        Some d \<Rightarrow> d | None \<Rightarrow> c)"

text \<open>\<^verbatim>\<open>name.match(/pat/i)\<close> for a pattern of plain letters.\<close>

definition match_i :: "string \<Rightarrow> string \<Rightarrow> bool" where
  "match_i name pat = str_contains (map lower_char name) (map lower_char pat)"

definition digit_char :: "nat \<Rightarrow> char" where
  "digit_char d = ''0123456789'' ! (d mod 10)"

fun show_nat :: "nat \<Rightarrow> string" where
  "show_nat n = (if n < 10 then [digit_char n] else show_nat (n div 10) @ [digit_char n])"

declare show_nat.simps [simp del]

subsection \<open>Requests\<close>

record payment =
  p_amount :: "int option"
  p_currency :: "string option"
  p_stripeToken :: "string option"
  p_interval :: "string option"
  p_email :: "string option"

record user =
  u_id :: nat
  u_email :: string
  u_hasFullAccount :: bool

record group =
  g_id :: nat
  g_name :: string
  g_currency :: string
  g_slug :: string

text \<open>
  \<^verbatim>\<open>req.required.payment\<close>, \<^verbatim>\<open>req.user\<close> (absent when nobody is logged in) and
  \<^verbatim>\<open>req.group\<close>.
\<close>

record request =
  r_payment :: payment
  r_user :: "user option"
  r_group :: group

text \<open>
  The amount \<^verbatim>\<open>payment.amount\<close> as a number. The steps run only after the validation
  has seen a truthy amount; fractional amounts and \<^verbatim>\<open>NaN\<close> are outside the model.
\<close>

definition amount_of :: "payment \<Rightarrow> int" where
  "amount_of p = (case p_amount p of Some a \<Rightarrow> a | None \<Rightarrow> 0)"

text \<open>\<^verbatim>\<open>_.contains(['month', 'year'], interval)\<close>\<close>

definition isSubscription :: "payment \<Rightarrow> bool" where
  "isSubscription p = (p_interval p = Some ''month'' \<or> p_interval p = Some ''year'')"

text \<open>\<^verbatim>\<open>payment.currency || group.currency\<close>\<close>

definition currency_of :: "request \<Rightarrow> string" where
  "currency_of req = str_or (p_currency (r_payment req)) (g_currency (r_group req))"

subsection \<open>Rows of the local storage\<close>

record paymentMethod =
  pm_id :: nat
  pm_token :: "string option"
  pm_serviceId :: string
  pm_service :: string
  pm_UserId :: "nat option"

record plan =
  plan_id :: string
  plan_interval :: string
  plan_amount :: int
  plan_name :: string
  plan_currency :: string

text \<open>
  What \<^verbatim>\<open>stripe.charges.create\<close> or \<^verbatim>\<open>stripe.customers.createSubscription\<close> answers:
  the controller keeps either under the name \<^verbatim>\<open>charge\<close>.
\<close>

record charge =
  ch_id :: string
  ch_currency :: "string option"
  ch_plan :: "plan option"
  ch_application_fee :: "int option"

record sub_descriptor =
  sd_amount :: int
  sd_currency :: string
  sd_interval :: "string option"
  sd_stripeSubscriptionId :: string

record donation =
  d_UserId :: nat
  d_CollectiveId :: nat
  d_currency :: string
  d_amount :: int
  d_title :: string
  d_subscription :: "sub_descriptor option"

record transaction =
  t_id :: nat
  t_type :: string
  t_amount :: "int option"
  t_amountInteger :: "int option"
  t_currency :: string
  t_interval :: "string option"
  t_platformFee :: "int option"
  t_stripeFee :: "int option"
  t_approved :: bool
  t_deletedAt :: "nat option"
  t_DonationId :: "nat option"
  t_PaymentMethodId :: "nat option"
  t_SubscriptionId :: "nat option"
  t_GroupId :: "nat option"
  t_UserId :: "nat option"

record agreement =
  ag_id :: string
  ag_links :: "string list"

record subscription =
  sub_id :: nat
  sub_amount :: int
  sub_currency :: string
  sub_interval :: "string option"
  sub_data :: "agreement option"
  sub_billingAgreementId :: "string option"
  sub_isActive :: bool
  sub_activatedAt :: "nat option"

record userGroup =
  ug_GroupId :: nat
  ug_UserId :: nat
  ug_role :: string

subsection \<open>Calls to the provider SDKs and to the mailer\<close>

datatype call =
    PlansRetrieve string
  | PlansCreate plan
  | CustomersCreate "string option" "string option"
  | CreateSubscription string string nat
  | ChargesCreate int string string
  | EmailSend string string
  | BillingPlanCreate string int string nat
  | BillingPlanActivate string
  | BillingAgreementCreate string
  | BillingAgreementExecute string

subsection \<open>State\<close>

record state =
  paymentMethods :: "paymentMethod list"
  donations :: "donation list"
  transactions :: "transaction list"
  subscriptions :: "subscription list"
  userGroups :: "userGroup list"
  users :: "user list"
  calls :: "call list"

definition log_call :: "call \<Rightarrow> state \<Rightarrow> state" where
  "log_call c s = s\<lparr>calls := calls s @ [c]\<rparr>"

text \<open>The primary key the storage gives a new row.\<close>

definition fresh_id :: "'a list \<Rightarrow> nat" where
  "fresh_id rows = Suc (length rows)"

text \<open>
  A transaction is in the default (paranoid) query scope while \<^verbatim>\<open>deletedAt\<close> is empty.
\<close>

definition visible :: "transaction \<Rightarrow> bool" where
  "visible t = (t_deletedAt t = None)"

definition visible_transactions :: "state \<Rightarrow> transaction list" where
  "visible_transactions s = filter visible (transactions s)"

subsection \<open>Answers of the collaborators\<close>

record stripeAccount =
  sa_accessToken :: "string option"

record customer =
  cus_id :: string

record connectedAccount =
  ca_clientId :: string
  ca_secret :: string

record executed_agreement =
  ex_id :: string
  ex_payer_email :: string

text \<open>The card provider's SDK and the collective's account for it.\<close>

record stripe_env =
  group_getStripeAccount :: "js_err + stripeAccount option"
  customers_create :: "string option \<Rightarrow> js_err + customer"
  plans_retrieve :: "string \<Rightarrow> js_err + plan"
  plans_create :: "plan \<Rightarrow> js_err + plan"
  customers_createSubscription :: "string \<Rightarrow> string \<Rightarrow> js_err + charge"
  charges_create :: "int \<Rightarrow> string \<Rightarrow> string \<Rightarrow> js_err + charge"

text \<open>The wallet provider's SDK and the collective's account for it.\<close>

record paypal_env =
  group_getConnectedAccount :: "js_err + connectedAccount option"
  billingPlan_create :: "js_err + string"
  billingPlan_activate :: "js_err option"
  billingAgreement_create :: "js_err + agreement"
  billingAgreement_execute :: "string \<Rightarrow> js_err + executed_agreement"

text \<open>
  Whether a storage operation fails. A lookup that does not fail answers from the tables
  of the state; a write that does not fail changes them.
\<close>

record storage_env =
  PaymentMethod_findOne :: "js_err option"
  PaymentMethod_create :: "js_err option"
  Donation_create :: "js_err option"
  Transaction_create :: "js_err option"
  UserGroup_findOne :: "js_err option"
  group_addUserWithRole :: "js_err option"
  transaction_getSubscription :: "js_err option"
  subscription_save :: "js_err option"
  User_findOne :: "js_err option"
  User_create :: "js_err + bool"
  transaction_restore :: "js_err option"
  transaction_setUser :: "js_err option"

record env =
  NODE_ENV :: "string option"
  now :: nat
  paypal_mode :: string
  planId :: "string \<Rightarrow> string option \<Rightarrow> int \<Rightarrow> string"
  stripe :: stripe_env
  paypal :: paypal_env
  storage :: storage_env

subsection \<open>Steps and how \<^verbatim>\<open>async.auto\<close> chains them\<close>

datatype 'a step = Done 'a | Fail error | Hang | Throw string

text \<open>
  \<^verbatim>\<open>async.auto\<close> starts a step once every step it depends on has called back with a
  result. The first error ends the graph: the completion callback gets it and no later
  step starts. A step that never calls back leaves its dependents waiting for ever, and the
  completion callback is not called. An exception escapes the graph.
\<close>

definition thenS ::
  "(state \<Rightarrow> 'a step \<times> state) \<Rightarrow> ('a \<Rightarrow> state \<Rightarrow> 'b step \<times> state) \<Rightarrow> state \<Rightarrow> 'b step \<times> state" where
  "thenS m f s =
     (case m s of
        (Done a, s') \<Rightarrow> f a s'
      | (Fail e, s') \<Rightarrow> (Fail e, s')
      | (Hang, s') \<Rightarrow> (Hang, s')
      | (Throw x, s') \<Rightarrow> (Throw x, s'))"

text \<open>A storage write: nothing changes when it fails.\<close>

definition store :: "js_err option \<Rightarrow> 'a \<Rightarrow> (state \<Rightarrow> state) \<Rightarrow> state \<Rightarrow> 'a step \<times> state" where
  "store failure row write s =
     (case failure of Some e \<Rightarrow> (Fail (Upstream e), s) | None \<Rightarrow> (Done row, write s))"

text \<open>What the handler does in the end.\<close>

datatype response =
    PostSuccess user bool
  | PaypalSuccess "string list"
  | Redirect string nat bool

text \<open>
  \<open>Sent\<close>: a response was sent. \<open>Next\<close>: \<^verbatim>\<open>next(e)\<close>. \<open>NextWithPayload\<close>: \<^verbatim>\<open>next(e)\<close>
  after \<^verbatim>\<open>e.payload = req.body\<close>. \<open>NoCallback\<close>: the graph never completed, so neither
  \<^verbatim>\<open>next\<close> nor \<^verbatim>\<open>res\<close> was used. \<open>Uncaught\<close>: an exception left the handler's code.
\<close>

datatype outcome =
    Sent response
  | Next error
  | NextWithPayload error
  | NoCallback
  | Uncaught string

subsection \<open>Constants of modules that the controller requires\<close>

text \<open>\<^verbatim>\<open>const OC_FEE_PERCENT = 5\<close>, at the top of the controller.\<close>

definition OC_FEE_PERCENT :: nat where
  "OC_FEE_PERCENT = 5"

text \<open>
  Modelled from the spec: \<^verbatim>\<open>constants.OC_FEE_PERCENT\<close> of \<^verbatim>\<open>constants/transactions\<close>,
  a module that is not part of the source at hand. The specification gives the fallback fee
  as the fixed platform percentage, 5% of the amount.
\<close>

definition constants_OC_FEE_PERCENT :: int where
  "constants_OC_FEE_PERCENT = 5"

text \<open>
  Modelled from the spec: \<^verbatim>\<open>constants.DONATION\<close> of the same module; the specification
  names the two transaction types donation and payment.
\<close>

definition constants_DONATION :: string where
  "constants_DONATION = ''donation''"

text \<open>
  Modelled from the spec: \<^verbatim>\<open>roles.BACKER\<close> of \<^verbatim>\<open>constants/roles\<close>, the role of a
  membership granted to a donor.
\<close>

definition roles_BACKER :: string where
  "roles_BACKER = ''BACKER''"

subsection \<open>Collaborators inside the repository\<close>

text \<open>What the controller hands to \<^verbatim>\<open>transactions._create\<close>.\<close>

record sub_attrs =
  sa_amount :: int
  sa_currency :: string
  sa_interval :: "string option"

record tx_payload =
  pl_transaction :: transaction
  pl_subscription :: "sub_attrs option"
  pl_group :: "group option"
  pl_paymentMethod :: "paymentMethod option"

text \<open>
  Modelled from the spec: \<^verbatim>\<open>transactions._create\<close> of \<^verbatim>\<open>controllers/transactions\<close>,
  which is not part of the source at hand. The specification has it persist the Transaction
  with the fields given (the provisional marker among them), together with the
  Subscription when one is given, the two linked, and answer the stored Transaction.
\<close>

definition transactions_create :: "env \<Rightarrow> tx_payload \<Rightarrow> state \<Rightarrow> transaction step \<times> state" where
  "transactions_create env pl s =
     (let sub_row = map_option (\<lambda>a.
            \<lparr>sub_id = fresh_id (subscriptions s), sub_amount = sa_amount a,
             sub_currency = sa_currency a, sub_interval = sa_interval a, sub_data = None,
             sub_billingAgreementId = None, sub_isActive = False, sub_activatedAt = None\<rparr>)
            (pl_subscription pl);
          tx = (pl_transaction pl)
            \<lparr>t_id := fresh_id (transactions s),
             t_SubscriptionId := map_option sub_id sub_row,
             t_GroupId := map_option g_id (pl_group pl),
             t_PaymentMethodId := map_option pm_id (pl_paymentMethod pl)\<rparr>
      in store (Transaction_create (storage env)) tx
           (\<lambda>s. s\<lparr>transactions := transactions s @ [tx],
                   subscriptions := subscriptions s @ (case sub_row of None \<Rightarrow> [] | Some r \<Rightarrow> [r])\<rparr>) s)"

text \<open>
  Modelled from the spec: \<^verbatim>\<open>users._create\<close> of \<^verbatim>\<open>controllers/users\<close>, which is not part
  of the source at hand. The specification has it answer a new user for the attributes
  given, with a generated account-completeness flag.
\<close>

definition users_create :: "env \<Rightarrow> string \<Rightarrow> state \<Rightarrow> user step \<times> state" where
  "users_create env email s =
     (case User_create (storage env) of
        Inl e \<Rightarrow> (Fail (Upstream e), s)
      | Inr full \<Rightarrow>
          (let u = \<lparr>u_id = fresh_id (users s), u_email = email, u_hasFullAccount = full\<rparr>
           in (Done u, s\<lparr>users := users s @ [u]\<rparr>)))"

text \<open>
  Modelled from the spec: \<^verbatim>\<open>group.addUserWithRole(user, role)\<close> of the Group model, which
  is not part of the source at hand. It stores one membership row for the user, the
  collective and the role.
\<close>

definition addUserWithRole :: "env \<Rightarrow> group \<Rightarrow> user \<Rightarrow> string \<Rightarrow> state \<Rightarrow> unit step \<times> state" where
  "addUserWithRole env g u role s =
     store (group_addUserWithRole (storage env)) ()
       (\<lambda>s. s\<lparr>userGroups := userGroups s @ [\<lparr>ug_GroupId = g_id g, ug_UserId = u_id u, ug_role = role\<rparr>]\<rparr>) s"

text \<open>
  \<^verbatim>\<open>models.UserGroup.findOne({where: {GroupId, UserId, role}})\<close>: the first matching row.
\<close>

definition UserGroup_find :: "nat \<Rightarrow> nat \<Rightarrow> string \<Rightarrow> state \<Rightarrow> userGroup option" where
  "UserGroup_find gid uid role s =
     find (\<lambda>r. ug_GroupId r = gid \<and> ug_UserId r = uid \<and> ug_role r = role) (userGroups s)"

subsection \<open>\<^verbatim>\<open>getOrCreatePlan\<close> (lines 29 to 43)\<close>

text \<open>
  \<^verbatim>\<open>type === 'StripeInvalidRequest' && _.contains(message, 'No such plan')\<close>
\<close>

definition no_such_plan :: "js_err \<Rightarrow> bool" where
  "no_such_plan err =
     (e_type err = Some ''StripeInvalidRequest'' \<and> contains_opt (e_message err) ''No such plan'')"

definition getOrCreatePlan :: "env \<Rightarrow> plan \<Rightarrow> state \<Rightarrow> plan step \<times> state" where
  "getOrCreatePlan env pl s =
     (let s1 = log_call (PlansRetrieve (plan_id pl)) s in
      case plans_retrieve (stripe env) (plan_id pl) of
        Inr result \<Rightarrow> (Done result, s1)
      | Inl err \<Rightarrow>
          if no_such_plan err then
            (let s2 = log_call (PlansCreate pl) s1 in
             case plans_create (stripe env) pl of
               Inl e \<Rightarrow> (Fail (Upstream e), s2)
             | Inr created \<Rightarrow> (Done created, s2))
          else (Fail (Upstream err), s1))"

subsection \<open>\<^verbatim>\<open>getOrCreateUser\<close> (lines 45 to 59)\<close>

definition getOrCreateUser :: "env \<Rightarrow> string \<Rightarrow> state \<Rightarrow> user step \<times> state" where
  "getOrCreateUser env email s =
     (case User_findOne (storage env) of
        Some e \<Rightarrow> (Fail (Upstream e), s)
      | None \<Rightarrow>
          (case find (\<lambda>u. u_email u = email) (users s) of
             Some u \<Rightarrow> (Done u, s)
           | None \<Rightarrow> users_create env email s))"

subsection \<open>The card workflow \<^verbatim>\<open>post\<close> (lines 61 to 316)\<close>

text \<open>Lines 84 to 97. The result is the provider client, held here by its access token.\<close>

definition getGroupStripeAccount :: "env \<Rightarrow> request \<Rightarrow> state \<Rightarrow> string step \<times> state" where
  "getGroupStripeAccount env req s =
     (case group_getStripeAccount (stripe env) of
        Inl err \<Rightarrow> (Fail (Upstream err), s)
      | Inr stripeAccount \<Rightarrow>
          (case stripeAccount of
             None \<Rightarrow>
               (Fail (BadRequest (''The host for the collective id '' @ show_nat (g_id (r_group req))
                                   @ '' has no Stripe account set up'')), s)
           | Some acct \<Rightarrow>
               if \<not> truthy_str (sa_accessToken acct) then
                 (Fail (BadRequest (''The host for the collective id '' @ show_nat (g_id (r_group req))
                                     @ '' has no Stripe account set up'')), s)
               else if NODE_ENV env \<noteq> Some ''production''
                       \<and> contains_opt (sa_accessToken acct) ''live'' then
                 (Fail (BadRequest (''You can'' @ [CHR 0x27] @ ''t use a Stripe live key on ''
                                     @ str_of (NODE_ENV env))), s)
               else (Done (str_of (sa_accessToken acct)), s)))"

text \<open>Lines 99 to 111.\<close>

definition getExistingPaymentMethod :: "env \<Rightarrow> request \<Rightarrow> state \<Rightarrow> paymentMethod option step \<times> state" where
  "getExistingPaymentMethod env req s =
     (case PaymentMethod_findOne (storage env) of
        Some e \<Rightarrow> (Fail (Upstream e), s)
      | None \<Rightarrow>
          (Done (find (\<lambda>pm. pm_token pm = p_stripeToken (r_payment req) \<and> pm_service pm = ''stripe'')
                   (paymentMethods s)), s))"

text \<open>
  Lines 113 to 126. The step answers the existing payment method when there is one, and
  the provider's new customer otherwise.
\<close>

datatype customer_result = Existing paymentMethod | Created customer

definition createCustomer ::
  "env \<Rightarrow> request \<Rightarrow> paymentMethod option \<Rightarrow> state \<Rightarrow> customer_result step \<times> state" where
  "createCustomer env req existing s =
     (case existing of
        Some pm \<Rightarrow> (Done (Existing pm), s)
      | None \<Rightarrow>
          (let s1 = log_call (CustomersCreate (p_stripeToken (r_payment req)) (p_email (r_payment req))) s in
           case customers_create (stripe env) (p_stripeToken (r_payment req)) of
             Inl e \<Rightarrow> (Fail (Upstream e), s1)
           | Inr c \<Rightarrow> (Done (Created c), s1)))"

text \<open>\<^verbatim>\<open>results.createCustomer.id\<close>\<close>

fun customer_result_id :: "customer_result \<Rightarrow> string" where
  "customer_result_id (Created c) = cus_id c"
| "customer_result_id (Existing pm) = show_nat (pm_id pm)"

text \<open>Lines 128 to 141.\<close>

definition createPaymentMethod ::
  "env \<Rightarrow> request \<Rightarrow> paymentMethod option \<Rightarrow> customer_result \<Rightarrow> state \<Rightarrow> paymentMethod step \<times> state" where
  "createPaymentMethod env req existing cust s =
     (case existing of
        Some pm \<Rightarrow> (Done pm, s)
      | None \<Rightarrow>
          (let pm = \<lparr>pm_id = fresh_id (paymentMethods s),
                     pm_token = p_stripeToken (r_payment req),
                     pm_serviceId = customer_result_id cust,
                     pm_service = ''stripe'',
                     pm_UserId = map_option u_id (r_user req)\<rparr>
           in store (PaymentMethod_create (storage env)) pm
                (\<lambda>s. s\<lparr>paymentMethods := paymentMethods s @ [pm]\<rparr>) s))"

text \<open>
  Lines 158 to 171: the plan of a subscription, with \<^verbatim>\<open>utils.planId\<close> (a module that is
  not part of the source at hand) as the parameter \<open>planId\<close> of the environment.
\<close>

definition charge_plan :: "env \<Rightarrow> request \<Rightarrow> plan" where
  "charge_plan env req =
     (let payment = r_payment req;
          amount = amount_of payment * 100;
          currency = currency_of req;
          pid = planId env currency (p_interval payment) amount
      in \<lparr>plan_id = pid, plan_interval = str_of (p_interval payment), plan_amount = amount,
          plan_name = pid, plan_currency = currency\<rparr>)"

text \<open>Lines 147 to 207.\<close>

definition createCharge :: "env \<Rightarrow> request \<Rightarrow> paymentMethod \<Rightarrow> state \<Rightarrow> charge step \<times> state" where
  "createCharge env req paymentMethod s =
     (let payment = r_payment req;
          amount = amount_of payment * 100;
          currency = currency_of req
      in if isSubscription payment then
           (thenS (getOrCreatePlan env (charge_plan env req))
              (\<lambda>pl s1.
                 (let s2 = log_call (CreateSubscription (pm_serviceId paymentMethod) (plan_id pl) OC_FEE_PERCENT) s1 in
                  case customers_createSubscription (stripe env) (pm_serviceId paymentMethod) (plan_id pl) of
                    Inl e \<Rightarrow> (Fail (Upstream e), s2)
                  | Inr sub \<Rightarrow> (Done sub, s2))) s)
         else
           (let s1 = log_call (ChargesCreate amount currency (pm_serviceId paymentMethod)) s in
            case charges_create (stripe env) amount currency (pm_serviceId paymentMethod) of
              Inl e \<Rightarrow> (Fail (Upstream e), s1)
            | Inr ch \<Rightarrow> (Done ch, s1)))"

text \<open>
  \<^verbatim>\<open>charge.currency || charge.plan.currency\<close>: reading \<^verbatim>\<open>.currency\<close> of a missing plan
  throws, which is \<open>None\<close> here.
\<close>

definition charge_currency :: "charge \<Rightarrow> string option" where
  "charge_currency ch =
     (if truthy_str (ch_currency ch) then ch_currency ch else map_option plan_currency (ch_plan ch))"

text \<open>
  Lines 210 to 234. The step builds the donation and hands it to \<^verbatim>\<open>models.Donation.create\<close>;
  it has no statement that calls \<^verbatim>\<open>cb\<close>, so it never completes, whatever the storage does.
\<close>

definition createDonation :: "env \<Rightarrow> request \<Rightarrow> charge \<Rightarrow> state \<Rightarrow> unit step \<times> state" where
  "createDonation env req ch s =
     (let payment = r_payment req; amount = amount_of payment in
      case charge_currency ch of
        None \<Rightarrow> (Throw ''TypeError'', s)
      | Some currency \<Rightarrow>
          (case r_user req of
             None \<Rightarrow> (Throw ''TypeError'', s)
           | Some u \<Rightarrow>
               (let donation =
                      \<lparr>d_UserId = u_id u,
                       d_CollectiveId = g_id (r_group req),
                       d_currency = currency,
                       d_amount = amount_of payment * 100,
                       d_title = ''Donation to '' @ g_name (r_group req),
                       d_subscription =
                         (if isSubscription payment then
                            Some \<lparr>sd_amount = amount, sd_currency = currency,
                                  sd_interval = p_interval payment,
                                  sd_stripeSubscriptionId = ch_id ch\<rparr>
                          else None)\<rparr>
                in (Hang,
                    case Donation_create (storage env) of
                      Some e \<Rightarrow> s
                    | None \<Rightarrow> s\<lparr>donations := donations s @ [donation]\<rparr>))))"

text \<open>
  Lines 237 to 263. \<^verbatim>\<open>results.createDonation\<close> is what \<^verbatim>\<open>createDonation\<close> gave its
  callback: nothing, so \<^verbatim>\<open>DonationId\<close> is empty.
\<close>

definition createTransaction ::
  "env \<Rightarrow> request \<Rightarrow> charge \<Rightarrow> paymentMethod \<Rightarrow> state \<Rightarrow> transaction option step \<times> state" where
  "createTransaction env req ch paymentMethod s =
     (if \<not> isSubscription (r_payment req) then
        (case charge_currency ch of
           None \<Rightarrow> (Throw ''TypeError'', s)
         | Some currency \<Rightarrow>
             (let amountInteger = amount_of (r_payment req) * 100;
                  applicationFee =
                    int_or (ch_application_fee ch) (constants_OC_FEE_PERCENT * amountInteger div 100)
              in thenS (transactions_create env
                   \<lparr>pl_transaction =
                      \<lparr>t_id = 0, t_type = constants_DONATION, t_amount = None,
                       t_amountInteger = Some amountInteger, t_currency = currency,
                       t_interval = None, t_platformFee = Some applicationFee,
                       t_stripeFee = Some 0, t_approved = False, t_deletedAt = None,
                       t_DonationId = None, t_PaymentMethodId = None, t_SubscriptionId = None,
                       t_GroupId = None, t_UserId = None\<rparr>,
                    pl_subscription = None, pl_group = None,
                    pl_paymentMethod = Some paymentMethod\<rparr>)
                  (\<lambda>t s'. (Done (Some t), s')) s))
      else (Done None, s))"

text \<open>
  Lines 266 to 283. The step reads \<^verbatim>\<open>donation.info\<close>, but no binding named
  \<^verbatim>\<open>donation\<close> is in scope of this function (the one of \<^verbatim>\<open>createDonation\<close> is local to
  that step), so building \<^verbatim>\<open>data\<close> throws a ReferenceError before anything is sent.
  The parameter \<open>binding\<close> is what the name \<^verbatim>\<open>donation\<close> resolves to; the rest of the step
  is what would run if it resolved. The mailer's answer is not looked at:
  \<^verbatim>\<open>emailLib.send(...)\<close> is followed by \<^verbatim>\<open>cb()\<close>.
\<close>

definition thankyou_template :: "group \<Rightarrow> string" where
  "thankyou_template g =
     ''thankyou'' @ (if match_i (g_name g) ''WWCode'' then ''.wwcode'' else [])
                  @ (if match_i (g_name g) ''ispcwa'' then ''.ispcwa'' else [])"

definition sendThankYouEmail_body ::
  "donation option \<Rightarrow> env \<Rightarrow> request \<Rightarrow> state \<Rightarrow> unit step \<times> state" where
  "sendThankYouEmail_body binding env req s =
     (case binding of
        None \<Rightarrow> (Throw ''ReferenceError'', s)
      | Some d \<Rightarrow>
          (case r_user req of
             None \<Rightarrow> (Throw ''TypeError'', s)
           | Some u \<Rightarrow> (Done (), log_call (EmailSend (thankyou_template (r_group req)) (u_email u)) s)))"

definition sendThankYouEmail :: "env \<Rightarrow> request \<Rightarrow> state \<Rightarrow> unit step \<times> state" where
  "sendThankYouEmail env req s = sendThankYouEmail_body None env req s"

text \<open>Lines 285 to 304.\<close>

definition addUserToGroup :: "env \<Rightarrow> request \<Rightarrow> state \<Rightarrow> unit step \<times> state" where
  "addUserToGroup env req s =
     (case r_user req of
        None \<Rightarrow> (Throw ''TypeError'', s)
      | Some u \<Rightarrow>
          (case UserGroup_findOne (storage env) of
             Some e \<Rightarrow> (Fail (Upstream e), s)
           | None \<Rightarrow>
               (case UserGroup_find (g_id (r_group req)) (u_id u) roles_BACKER s of
                  None \<Rightarrow> addUserWithRole env (r_group req) u roles_BACKER s
                | Some userGroup \<Rightarrow> (Done (), s))))"

text \<open>
  The graph of lines 82 to 304, in an order that respects the declared dependencies.
  \<^verbatim>\<open>createTransaction\<close> and \<^verbatim>\<open>sendThankYouEmail\<close> both wait for \<^verbatim>\<open>createDonation\<close> only;
  the mail step is synchronous, so it is over before the storage answers
  \<^verbatim>\<open>createTransaction\<close>.
\<close>

definition post_graph :: "env \<Rightarrow> request \<Rightarrow> state \<Rightarrow> unit step \<times> state" where
  "post_graph env req =
     thenS (getGroupStripeAccount env req) (\<lambda>stripe_client.
     thenS (getExistingPaymentMethod env req) (\<lambda>existing.
     thenS (createCustomer env req existing) (\<lambda>cust.
     thenS (createPaymentMethod env req existing cust) (\<lambda>paymentMethod.
     thenS (createCharge env req paymentMethod) (\<lambda>ch.
     thenS (createDonation env req ch) (\<lambda>d.
     thenS (sendThankYouEmail env req) (\<lambda>sent.
     thenS (createTransaction env req ch paymentMethod) (\<lambda>t.
     addUserToGroup env req))))))))"

text \<open>
  The completion callback of lines 306 to 314; \<^verbatim>\<open>hasFullAccount\<close> is the constant
  \<^verbatim>\<open>false\<close> of line 68.
\<close>

definition post_complete :: "request \<Rightarrow> unit step \<times> state \<Rightarrow> outcome \<times> state" where
  "post_complete req r =
     (case r of
        (Fail e, s) \<Rightarrow> (NextWithPayload e, s)
      | (Done x, s) \<Rightarrow>
          (case r_user req of
             None \<Rightarrow> (Uncaught ''TypeError'', s)
           | Some u \<Rightarrow> (Sent (PostSuccess u False), s))
      | (Hang, s) \<Rightarrow> (NoCallback, s)
      | (Throw x, s) \<Rightarrow> (Uncaught x, s))"

definition post :: "env \<Rightarrow> request \<Rightarrow> state \<Rightarrow> outcome \<times> state" where
  "post env req s =
     (let payment = r_payment req in
      if truthy_str (p_interval payment) \<and> \<not> isSubscription payment then
        (Next (BadRequest ''Interval should be month or year.''), s)
      else if \<not> truthy_str (p_stripeToken payment) then
        (Next (BadRequest ''Stripe Token missing.''), s)
      else if \<not> truthy_int (p_amount payment) then
        (Next (BadRequest ''Payment Amount missing.''), s)
      else post_complete req (post_graph env req s))"

subsection \<open>The wallet workflow, initiation: \<^verbatim>\<open>paypalDonation\<close> (lines 318 to 457)\<close>

record paypal_config =
  cfg_mode :: string
  cfg_client_id :: string
  cfg_client_secret :: string

text \<open>
  Lines 335 to 348 and 469 to 479. Reading \<^verbatim>\<open>clientId\<close> of a missing account throws inside
  the promise chain, which \<^verbatim>\<open>.catch(cb)\<close> turns into the step's error.
\<close>

definition getPaypalConfig :: "env \<Rightarrow> state \<Rightarrow> paypal_config step \<times> state" where
  "getPaypalConfig env s =
     (case group_getConnectedAccount (paypal env) of
        Inl e \<Rightarrow> (Fail (Upstream e), s)
      | Inr None \<Rightarrow> (Fail (TypeError ''clientId''), s)
      | Inr (Some acct) \<Rightarrow>
          (Done \<lparr>cfg_mode = paypal_mode env, cfg_client_id = ca_clientId acct,
                 cfg_client_secret = ca_secret acct\<rparr>, s))"

text \<open>Lines 352 to 378.\<close>

definition paypal_createTransaction :: "env \<Rightarrow> request \<Rightarrow> state \<Rightarrow> transaction step \<times> state" where
  "paypal_createTransaction env req s =
     (let payment = r_payment req;
          amount = amount_of payment;
          currency = currency_of req;
          interval = p_interval payment
      in transactions_create env
           \<lparr>pl_transaction =
              \<lparr>t_id = 0, t_type = ''payment'', t_amount = Some amount, t_amountInteger = None,
               t_currency = currency, t_interval = interval, t_platformFee = None,
               t_stripeFee = None, t_approved = True, t_deletedAt = Some (now env),
               t_DonationId = None, t_PaymentMethodId = None, t_SubscriptionId = None,
               t_GroupId = None, t_UserId = None\<rparr>,
            pl_subscription = Some \<lparr>sa_amount = amount, sa_currency = currency, sa_interval = interval\<rparr>,
            pl_group = Some (r_group req),
            pl_paymentMethod = None\<rparr> s)"

text \<open>
  Lines 380 to 405. The call is logged with the currency, the amount and the frequency of
  the payment definition, and with the transaction id of the callback URL.
\<close>

definition createPlan :: "env \<Rightarrow> request \<Rightarrow> transaction \<Rightarrow> state \<Rightarrow> string step \<times> state" where
  "createPlan env req t s =
     (let s1 = log_call (BillingPlanCreate (currency_of req) (amount_of (r_payment req))
                           (map upper_char (str_of (p_interval (r_payment req)))) (t_id t)) s in
      case billingPlan_create (paypal env) of
        Inl e \<Rightarrow> (Fail (Upstream e), s1)
      | Inr plan_ref \<Rightarrow> (Done plan_ref, s1))"

text \<open>Lines 407 to 409.\<close>

definition activatePlan :: "env \<Rightarrow> string \<Rightarrow> state \<Rightarrow> unit step \<times> state" where
  "activatePlan env plan_ref s =
     (let s1 = log_call (BillingPlanActivate plan_ref) s in
      case billingPlan_activate (paypal env) of
        Some e \<Rightarrow> (Fail (Upstream e), s1)
      | None \<Rightarrow> (Done (), s1))"

text \<open>Lines 411 to 430.\<close>

definition createBillingAgreement :: "env \<Rightarrow> string \<Rightarrow> state \<Rightarrow> agreement step \<times> state" where
  "createBillingAgreement env plan_ref s =
     (let s1 = log_call (BillingAgreementCreate plan_ref) s in
      case billingAgreement_create (paypal env) of
        Inl e \<Rightarrow> (Fail (Upstream e), s1)
      | Inr a \<Rightarrow> (Done a, s1))"

text \<open>
  \<^verbatim>\<open>transaction.getSubscription()\<close> followed by a change of the row and
  \<^verbatim>\<open>subscription.save()\<close>, in a promise chain that ends in \<^verbatim>\<open>.catch(cb)\<close>: a transaction
  without subscription makes the change throw, which becomes the step's error.
\<close>

definition update_subscription ::
  "env \<Rightarrow> transaction \<Rightarrow> (subscription \<Rightarrow> subscription) \<Rightarrow> state \<Rightarrow> unit step \<times> state" where
  "update_subscription env t change s =
     (case transaction_getSubscription (storage env) of
        Some e \<Rightarrow> (Fail (Upstream e), s)
      | None \<Rightarrow>
          (case find (\<lambda>r. Some (sub_id r) = t_SubscriptionId t) (subscriptions s) of
             None \<Rightarrow> (Fail (TypeError ''data''), s)
           | Some row \<Rightarrow>
               store (subscription_save (storage env)) ()
                 (\<lambda>s. s\<lparr>subscriptions :=
                          map (\<lambda>r. if sub_id r = sub_id row then change r else r) (subscriptions s)\<rparr>) s))"

text \<open>Lines 432 to 443.\<close>

definition updateSubscription :: "env \<Rightarrow> transaction \<Rightarrow> agreement \<Rightarrow> state \<Rightarrow> unit step \<times> state" where
  "updateSubscription env t a s = update_subscription env t (\<lambda>r. r\<lparr>sub_data := Some a\<rparr>) s"

definition paypal_graph :: "env \<Rightarrow> request \<Rightarrow> state \<Rightarrow> agreement step \<times> state" where
  "paypal_graph env req =
     thenS (getPaypalConfig env) (\<lambda>cfg.
     thenS (paypal_createTransaction env req) (\<lambda>t.
     thenS (createPlan env req t) (\<lambda>plan_ref.
     thenS (activatePlan env plan_ref) (\<lambda>activated.
     thenS (createBillingAgreement env plan_ref) (\<lambda>a.
     thenS (updateSubscription env t a) (\<lambda>saved s. (Done a, s)))))))"

text \<open>The completion callback of lines 445 to 455.\<close>

definition paypal_complete :: "agreement step \<times> state \<Rightarrow> outcome \<times> state" where
  "paypal_complete r =
     (case r of
        (Fail e, s) \<Rightarrow> (NextWithPayload e, s)
      | (Done a, s) \<Rightarrow> (Sent (PaypalSuccess (ag_links a)), s)
      | (Hang, s) \<Rightarrow> (NoCallback, s)
      | (Throw x, s) \<Rightarrow> (Uncaught x, s))"

definition paypalDonation :: "env \<Rightarrow> request \<Rightarrow> state \<Rightarrow> outcome \<times> state" where
  "paypalDonation env req s =
     (let payment = r_payment req in
      if \<not> isSubscription payment then
        (Next (BadRequest ''Interval should be month or year.''), s)
      else if \<not> truthy_int (p_amount payment) then
        (Next (BadRequest ''Payment Amount missing.''), s)
      else paypal_complete (paypal_graph env req s))"

subsection \<open>The wallet workflow, callback: \<^verbatim>\<open>paypalCallback\<close> (lines 459 to 546)\<close>

text \<open>
  \<^verbatim>\<open>req.paranoidtransaction\<close> (the transaction of the URL, looked up with the provisional
  ones included), \<^verbatim>\<open>req.group\<close> and \<^verbatim>\<open>req.query.token\<close>.
\<close>

record callback_request =
  c_transaction :: transaction
  c_group :: group
  c_token :: "string option"

text \<open>Lines 481 to 483.\<close>

definition executeBillingAgreement ::
  "env \<Rightarrow> callback_request \<Rightarrow> state \<Rightarrow> executed_agreement step \<times> state" where
  "executeBillingAgreement env req s =
     (let s1 = log_call (BillingAgreementExecute (str_of (c_token req))) s in
      case billingAgreement_execute (paypal env) (str_of (c_token req)) of
        Inl e \<Rightarrow> (Fail (Upstream e), s1)
      | Inr a \<Rightarrow> (Done a, s1))"

text \<open>Lines 485 to 501.\<close>

definition activateSubscription ::
  "env \<Rightarrow> callback_request \<Rightarrow> executed_agreement \<Rightarrow> state \<Rightarrow> unit step \<times> state" where
  "activateSubscription env req a s =
     update_subscription env (c_transaction req)
       (\<lambda>r. r\<lparr>sub_billingAgreementId := Some (ex_id a), sub_isActive := True,
              sub_activatedAt := Some (now env)\<rparr>) s"

text \<open>Lines 511 to 531.\<close>

definition callback_addUserToGroup ::
  "env \<Rightarrow> callback_request \<Rightarrow> user \<Rightarrow> state \<Rightarrow> unit step \<times> state" where
  "callback_addUserToGroup env req u s =
     (case UserGroup_findOne (storage env) of
        Some e \<Rightarrow> (Fail (Upstream e), s)
      | None \<Rightarrow>
          (case UserGroup_find (g_id (c_group req)) (u_id u) roles_BACKER s of
             None \<Rightarrow> addUserWithRole env (c_group req) u roles_BACKER s
           | Some userGroup \<Rightarrow> (Done (), s)))"

text \<open>
  \<^verbatim>\<open>transaction.restore()\<close> and \<^verbatim>\<open>transaction.setUser(user)\<close> of the storage engine, on the
  row with the transaction's primary key.
\<close>

definition restore :: "nat \<Rightarrow> state \<Rightarrow> state" where
  "restore tid s =
     s\<lparr>transactions := map (\<lambda>t. if t_id t = tid then t\<lparr>t_deletedAt := None\<rparr> else t) (transactions s)\<rparr>"

definition setUser :: "nat \<Rightarrow> user \<Rightarrow> state \<Rightarrow> state" where
  "setUser tid u s =
     s\<lparr>transactions := map (\<lambda>t. if t_id t = tid then t\<lparr>t_UserId := Some (u_id u)\<rparr> else t) (transactions s)\<rparr>"

text \<open>Lines 533 to 538: restore first, then the association with the user.\<close>

definition updateTransaction ::
  "env \<Rightarrow> callback_request \<Rightarrow> user \<Rightarrow> state \<Rightarrow> unit step \<times> state" where
  "updateTransaction env req u =
     thenS (store (transaction_restore (storage env)) () (restore (t_id (c_transaction req)))) (\<lambda>restored.
     store (transaction_setUser (storage env)) () (setUser (t_id (c_transaction req)) u))"

text \<open>The steps of the callback up to and including the membership grant.\<close>

definition callback_until_membership ::
  "env \<Rightarrow> callback_request \<Rightarrow> state \<Rightarrow> user step \<times> state" where
  "callback_until_membership env req =
     thenS (getPaypalConfig env) (\<lambda>cfg.
     thenS (executeBillingAgreement env req) (\<lambda>a.
     thenS (activateSubscription env req a) (\<lambda>activated.
     thenS (getOrCreateUser env (ex_payer_email a)) (\<lambda>u.
     thenS (callback_addUserToGroup env req u) (\<lambda>added s. (Done u, s))))))"

definition callback_graph :: "env \<Rightarrow> callback_request \<Rightarrow> state \<Rightarrow> user step \<times> state" where
  "callback_graph env req =
     thenS (callback_until_membership env req) (\<lambda>u.
     thenS (updateTransaction env req u) (\<lambda>updated s. (Done u, s)))"

text \<open>The completion callback of lines 539 to 544.\<close>

definition callback_complete :: "callback_request \<Rightarrow> user step \<times> state \<Rightarrow> outcome \<times> state" where
  "callback_complete req r =
     (case r of
        (Fail e, s) \<Rightarrow> (Next e, s)
      | (Done u, s) \<Rightarrow> (Sent (Redirect (g_slug (c_group req)) (u_id u) (u_hasFullAccount u)), s)
      | (Hang, s) \<Rightarrow> (NoCallback, s)
      | (Throw x, s) \<Rightarrow> (Uncaught x, s))"

definition paypalCallback :: "env \<Rightarrow> callback_request \<Rightarrow> state \<Rightarrow> outcome \<times> state" where
  "paypalCallback env req s =
     (if \<not> truthy_str (c_token req) then
        (Next (BadRequest ''Token to execute agreement is missing''), s)
      else callback_complete req (callback_graph env req s))"

subsection \<open>Observations on a state\<close>

text \<open>The membership rows of one user in one collective with the role BACKER.\<close>

definition backer_rows :: "nat \<Rightarrow> nat \<Rightarrow> state \<Rightarrow> userGroup list" where
  "backer_rows gid uid s =
     filter (\<lambda>r. ug_GroupId r = gid \<and> ug_UserId r = uid \<and> ug_role r = roles_BACKER) (userGroups s)"

text \<open>The calls that create a customer at the card provider.\<close>

fun is_customer_creation :: "call \<Rightarrow> bool" where
  "is_customer_creation (CustomersCreate tok email) = True"
| "is_customer_creation c = False"

definition customer_creations :: "state \<Rightarrow> call list" where
  "customer_creations s = filter is_customer_creation (calls s)"

text \<open>The provider customer a charge or a subscription is made for.\<close>

fun charged_customer :: "call \<Rightarrow> string option" where
  "charged_customer (ChargesCreate amount currency cust) = Some cust"
| "charged_customer (CreateSubscription cust plan_ref fee) = Some cust"
| "charged_customer c = None"

definition charged_customers :: "state \<Rightarrow> string list" where
  "charged_customers s = List.map_filter charged_customer (calls s)"

text \<open>The amount a call sends to a provider, for the calls that carry one.\<close>

fun call_amount :: "call \<Rightarrow> int option" where
  "call_amount (ChargesCreate amount currency cust) = Some amount"
| "call_amount (PlansCreate pl) = Some (plan_amount pl)"
| "call_amount (BillingPlanCreate currency amount frequency tid) = Some amount"
| "call_amount c = None"

text \<open>The payment method the storage finds for a token of the card provider.\<close>

definition PaymentMethod_find :: "string option \<Rightarrow> state \<Rightarrow> paymentMethod option" where
  "PaymentMethod_find tok s =
     find (\<lambda>pm. pm_token pm = tok \<and> pm_service pm = ''stripe'') (paymentMethods s)"

text \<open>A relation between the state before a step and the state after it, whatever the step answers.\<close>

definition preserves :: "(state \<Rightarrow> state \<Rightarrow> bool) \<Rightarrow> (state \<Rightarrow> 'a step \<times> state) \<Rightarrow> bool" where
  "preserves R m = (\<forall>s. R s (snd (m s)))"


subsection \<open>Concrete requests and collaborators\<close>

definition some_error :: js_err where
  "some_error = \<lparr>e_type = Some ''Error'', e_message = Some ''failed''\<rparr>"

definition not_found_error :: js_err where
  "not_found_error = \<lparr>e_type = Some ''StripeInvalidRequest'', e_message = Some ''No such plan: USD-MONTH-1000''\<rparr>"

text \<open>A card provider that accepts everything and has no plan yet.\<close>

definition stripe_ok :: stripe_env where
  "stripe_ok =
     \<lparr>group_getStripeAccount = Inr (Some \<lparr>sa_accessToken = Some ''sk_test_1''\<rparr>),
      customers_create = (\<lambda>tok. Inr \<lparr>cus_id = ''cus_1''\<rparr>),
      plans_retrieve = (\<lambda>pid. Inl not_found_error),
      plans_create = (\<lambda>pl. Inr pl),
      customers_createSubscription = (\<lambda>cust pid.
         Inr \<lparr>ch_id = ''sub_1'', ch_currency = None,
              ch_plan = Some \<lparr>plan_id = pid, plan_interval = ''month'', plan_amount = 1000,
                               plan_name = pid, plan_currency = ''USD''\<rparr>,
              ch_application_fee = None\<rparr>),
      charges_create = (\<lambda>amount currency cust.
         Inr \<lparr>ch_id = ''ch_1'', ch_currency = Some currency, ch_plan = None,
              ch_application_fee = None\<rparr>)\<rparr>"

definition paypal_ok :: paypal_env where
  "paypal_ok =
     \<lparr>group_getConnectedAccount = Inr (Some \<lparr>ca_clientId = ''client'', ca_secret = ''secret''\<rparr>),
      billingPlan_create = Inr ''P-1'',
      billingPlan_activate = None,
      billingAgreement_create = Inr \<lparr>ag_id = ''I-1'', ag_links = [''https://paypal.example/approve'']\<rparr>,
      billingAgreement_execute = (\<lambda>tok. Inr \<lparr>ex_id = ''I-1'', ex_payer_email = ''payer@example.org''\<rparr>)\<rparr>"

definition storage_ok :: storage_env where
  "storage_ok =
     \<lparr>PaymentMethod_findOne = None, PaymentMethod_create = None, Donation_create = None,
      Transaction_create = None, UserGroup_findOne = None, group_addUserWithRole = None,
      transaction_getSubscription = None, subscription_save = None, User_findOne = None,
      User_create = Inr False, transaction_restore = None, transaction_setUser = None\<rparr>"

definition env_ok :: env where
  "env_ok =
     \<lparr>NODE_ENV = Some ''test'', now = 1000, paypal_mode = ''sandbox'',
      planId = (\<lambda>currency interval amount. ''PLAN'' ),
      stripe = stripe_ok, paypal = paypal_ok, storage = storage_ok\<rparr>"

definition empty_state :: state where
  "empty_state =
     \<lparr>paymentMethods = [], donations = [], transactions = [], subscriptions = [],
      userGroups = [], users = [], calls = []\<rparr>"

definition donor :: user where
  "donor = \<lparr>u_id = 1, u_email = ''donor@example.org'', u_hasFullAccount = True\<rparr>"

definition collective :: group where
  "collective = \<lparr>g_id = 1, g_name = ''Collective'', g_currency = ''EUR'', g_slug = ''collective''\<rparr>"

text \<open>The one-time request of the specification's example.\<close>

definition one_time_request :: request where
  "one_time_request =
     \<lparr>r_payment = \<lparr>p_amount = Some 10, p_currency = Some ''USD'', p_stripeToken = Some ''tok_valid'',
                    p_interval = None, p_email = Some ''donor@example.org''\<rparr>,
      r_user = Some donor, r_group = collective\<rparr>"

definition monthly_request :: request where
  "monthly_request =
     one_time_request\<lparr>r_payment := (r_payment one_time_request)\<lparr>p_interval := Some ''month''\<rparr>\<rparr>"

definition negative_request :: request where
  "negative_request =
     one_time_request\<lparr>r_payment := (r_payment one_time_request)\<lparr>p_amount := Some (- 5)\<rparr>\<rparr>"

text \<open>The wallet request of the specification's example.\<close>

definition wallet_request :: request where
  "wallet_request =
     \<lparr>r_payment = \<lparr>p_amount = Some 5, p_currency = Some ''EUR'', p_stripeToken = None,
                    p_interval = Some ''month'', p_email = None\<rparr>,
      r_user = None, r_group = collective\<rparr>"

definition week_request :: request where
  "week_request =
     one_time_request\<lparr>r_payment := (r_payment one_time_request)\<lparr>p_interval := Some ''week''\<rparr>\<rparr>"

definition no_amount_request :: request where
  "no_amount_request =
     monthly_request\<lparr>r_payment := (r_payment monthly_request)\<lparr>p_amount := None\<rparr>\<rparr>"

definition negative_wallet_request :: request where
  "negative_wallet_request =
     wallet_request\<lparr>r_payment := (r_payment wallet_request)\<lparr>p_amount := Some (- 5)\<rparr>\<rparr>"

text \<open>The plan of the monthly request, and card providers that know it or cannot be asked.\<close>

definition monthly_plan :: plan where
  "monthly_plan =
     \<lparr>plan_id = ''PLAN'', plan_interval = ''month'', plan_amount = 1000,
      plan_name = ''PLAN'', plan_currency = ''USD''\<rparr>"

definition env_plan_found :: env where
  "env_plan_found = env_ok\<lparr>stripe := stripe_ok\<lparr>plans_retrieve := (\<lambda>pid. Inr monthly_plan)\<rparr>\<rparr>"

definition env_plan_unreachable :: env where
  "env_plan_unreachable = env_ok\<lparr>stripe := stripe_ok\<lparr>plans_retrieve := (\<lambda>pid. Inl some_error)\<rparr>\<rparr>"

text \<open>The payment method that the first request with the token \<^verbatim>\<open>tok_valid\<close> stores.\<close>

definition stored_method :: paymentMethod where
  "stored_method =
     \<lparr>pm_id = 1, pm_token = Some ''tok_valid'', pm_serviceId = ''cus_1'',
      pm_service = ''stripe'', pm_UserId = Some 1\<rparr>"

text \<open>A state in which the donor is a backer of the collective.\<close>

definition member_state :: state where
  "member_state =
     empty_state\<lparr>userGroups := [\<lparr>ug_GroupId = 1, ug_UserId = 1, ug_role = ''BACKER''\<rparr>]\<rparr>"

text \<open>
  The provisional transaction that the wallet request leaves behind, the state it leaves
  behind, and the provider's callback for it.
\<close>

definition provisional_transaction :: transaction where
  "provisional_transaction =
     \<lparr>t_id = 1, t_type = ''payment'', t_amount = Some 5, t_amountInteger = None,
      t_currency = ''EUR'', t_interval = Some ''month'', t_platformFee = None,
      t_stripeFee = None, t_approved = True, t_deletedAt = Some 1000, t_DonationId = None,
      t_PaymentMethodId = None, t_SubscriptionId = Some 1, t_GroupId = Some 1, t_UserId = None\<rparr>"

definition initiated_state :: state where
  "initiated_state = snd (paypalDonation env_ok wallet_request empty_state)"

definition wallet_callback :: callback_request where
  "wallet_callback =
     \<lparr>c_transaction = provisional_transaction, c_group = collective, c_token = Some ''EC-1''\<rparr>"

text \<open>A storage that restores the transaction and then fails to associate the user.\<close>

definition env_setUser_fails :: env where
  "env_setUser_fails = env_ok\<lparr>storage := storage_ok\<lparr>transaction_setUser := Some some_error\<rparr>\<rparr>"

text \<open>A storage that refuses the restore, and a wallet provider that refuses the execution.\<close>

definition env_restore_fails :: env where
  "env_restore_fails = env_ok\<lparr>storage := storage_ok\<lparr>transaction_restore := Some some_error\<rparr>\<rparr>"

definition env_execute_fails :: env where
  "env_execute_fails = env_ok\<lparr>paypal := paypal_ok\<lparr>billingAgreement_execute := (\<lambda>tok. Inl some_error)\<rparr>\<rparr>"

text \<open>The state in which the callback has granted the membership and is about to restore.\<close>

definition activated_state :: state where
  "activated_state = snd (callback_until_membership env_restore_fails wallet_callback initiated_state)"

section \<open>Properties\<close>

subsection \<open>Chaining of steps\<close>

lemma thenS_Done [simp]: "m s = (Done a, s1) \<Longrightarrow> thenS m f s = f a s1"
  by (simp add: thenS_def)

lemma thenS_Fail [simp]: "m s = (Fail e, s1) \<Longrightarrow> thenS m f s = (Fail e, s1)"
  by (simp add: thenS_def)

lemma thenS_Hang [simp]: "m s = (Hang, s1) \<Longrightarrow> thenS m f s = (Hang, s1)"
  by (simp add: thenS_def)

lemma thenS_Throw [simp]: "m s = (Throw x, s1) \<Longrightarrow> thenS m f s = (Throw x, s1)"
  by (simp add: thenS_def)

lemma thenS_eq_Done:
  "thenS m f s = (Done b, s2) \<longleftrightarrow> (\<exists>a s1. m s = (Done a, s1) \<and> f a s1 = (Done b, s2))"
  by (auto simp: thenS_def split: prod.splits step.splits)

lemma thenS_eq_Fail:
  "thenS m f s = (Fail e, s2) \<longleftrightarrow>
     m s = (Fail e, s2) \<or> (\<exists>a s1. m s = (Done a, s1) \<and> f a s1 = (Fail e, s2))"
  by (auto simp: thenS_def split: prod.splits step.splits)

lemma preserves_thenS:
  assumes "transp R" and "preserves R m" and "\<And>a. preserves R (f a)"
  shows "preserves R (thenS m f)"
  unfolding preserves_def
proof
  fix s
  obtain r s1 where ms: "m s = (r, s1)" by (cases "m s")
  have R1: "R s s1" using assms(2) ms by (auto simp: preserves_def dest: spec [of _ s])
  show "R s (snd (thenS m f s))"
  proof (cases r)
    case (Done a)
    have "R s1 (snd (f a s1))" using assms(3) [of a] by (simp add: preserves_def)
    with R1 assms(1) have "R s (snd (f a s1))" by (blast dest: transpD)
    with ms Done show ?thesis by simp
  qed (use ms R1 in simp_all)
qed

lemma preserves_return: "reflp R \<Longrightarrow> preserves R (\<lambda>s. (r, s))"
  by (simp add: preserves_def reflpD)

lemma preserves_store:
  "reflp R \<Longrightarrow> (\<And>s. R s (write s)) \<Longrightarrow> preserves R (store failure row write)"
  by (auto simp: preserves_def store_def reflpD split: option.splits)

lemma transp_same: "transp (\<lambda>s s'. f s' = f s)"
  by (simp add: transp_def)

lemma reflp_same: "reflp (\<lambda>s s'. f s' = f s)"
  by (simp add: reflp_def)

lemmas concrete_defs =
  env_ok_def stripe_ok_def paypal_ok_def storage_ok_def empty_state_def donor_def collective_def
  one_time_request_def monthly_request_def negative_request_def wallet_request_def
  not_found_error_def some_error_def week_request_def no_amount_request_def
  negative_wallet_request_def monthly_plan_def env_plan_found_def env_plan_unreachable_def
  stored_method_def member_state_def provisional_transaction_def wallet_callback_def
  env_setUser_fails_def env_restore_fails_def env_execute_fails_def

lemmas step_defs =
  post_def post_graph_def post_complete_def getGroupStripeAccount_def getExistingPaymentMethod_def
  createCustomer_def createPaymentMethod_def createCharge_def createDonation_def
  createTransaction_def sendThankYouEmail_def sendThankYouEmail_body_def addUserToGroup_def
  getOrCreatePlan_def charge_plan_def charge_currency_def no_such_plan_def
  thenS_def store_def log_call_def fresh_id_def amount_of_def isSubscription_def currency_of_def
  transactions_create_def users_create_def addUserWithRole_def UserGroup_find_def getOrCreateUser_def
  Let_def

lemmas wallet_defs =
  paypalDonation_def paypal_graph_def paypal_complete_def getPaypalConfig_def
  paypal_createTransaction_def createPlan_def activatePlan_def createBillingAgreement_def
  update_subscription_def updateSubscription_def paypalCallback_def callback_graph_def
  callback_until_membership_def callback_complete_def executeBillingAgreement_def
  activateSubscription_def callback_addUserToGroup_def updateTransaction_def restore_def
  setUser_def upper_char_def

subsection \<open>The card workflow never completes its graph\<close>

text \<open>
  \<^verbatim>\<open>createDonation\<close> never calls back, whatever the request and the collaborators: it
  either throws or returns after handing the donation to the storage.
\<close>

lemma createDonation_never_done: "fst (createDonation env req ch s) \<noteq> Done x"
  by (simp add: createDonation_def Let_def split: option.splits)

lemma post_graph_never_done: "fst (post_graph env req s) \<noteq> Done x"
  by (auto simp: post_graph_def thenS_def createDonation_def Let_def
       split: prod.splits step.splits option.splits)

text \<open>So no request to \<^verbatim>\<open>post\<close> is ever answered with the success response.\<close>

lemma post_never_sends: "fst (post env req s) \<noteq> Sent r"
proof -
  have "fst (post_complete req (post_graph env req s)) \<noteq> Sent r"
    using post_graph_never_done [of env req s]
    by (cases "post_graph env req s") (auto simp: post_complete_def split: step.splits option.splits)
  then show ?thesis by (simp add: post_def Let_def)
qed

text \<open>
  Claim C1. For a valid one-time-charge card request the workflow should create exactly one
  Donation and exactly one Transaction, the Transaction carrying \<^verbatim>\<open>payment.amount * 100\<close>.
  On the specification's example request (amount 10, currency USD, a valid token, no
  interval), with every collaborator answering successfully, the code stores one Donation of
  1000 minor units and no Transaction at all: \<^verbatim>\<open>createTransaction\<close> waits for
  \<^verbatim>\<open>createDonation\<close>, which never calls back.
\<close>

theorem post_one_time_stores_no_transaction:
  "map d_amount (donations (snd (post env_ok one_time_request empty_state))) = [1000]
   \<and> transactions (snd (post env_ok one_time_request empty_state)) = []"
  by (simp add: step_defs concrete_defs)

text \<open>
  Claim C2. For a card request that passes the validations, the completion callback should
  be invoked exactly once, with the first failure or else with the results. On the example
  request with every collaborator answering successfully, the completion callback is not
  invoked at all: the handler neither sends a response nor calls \<^verbatim>\<open>next\<close>.
\<close>

theorem post_one_time_never_completes:
  "fst (post env_ok one_time_request empty_state) = NoCallback"
  by (simp add: step_defs concrete_defs)

subsection \<open>The plan resolver\<close>

text \<open>
  Claim C7. \<^verbatim>\<open>getOrCreatePlan\<close>: when the retrieval succeeds, the plan found is the result
  and no plan is created (the only call logged is the retrieval); when the retrieval fails
  with an invalid-request error whose message reports no such plan, the plan is created and
  the result is what the creation answers; any other retrieval error is the result, no plan
  is created, and the charge step of a subscription request fails with that same error
  before any subscription is created, which ends the graph.
\<close>

theorem getOrCreatePlan_resolves:
  "(plans_retrieve (stripe env) (plan_id pl) = Inr found \<longrightarrow>
      getOrCreatePlan env pl s = (Done found, log_call (PlansRetrieve (plan_id pl)) s))
   \<and> (plans_retrieve (stripe env) (plan_id pl) = Inl err \<and> no_such_plan err \<longrightarrow>
      getOrCreatePlan env pl s =
        (case plans_create (stripe env) pl of Inl e \<Rightarrow> Fail (Upstream e) | Inr created \<Rightarrow> Done created,
         log_call (PlansCreate pl) (log_call (PlansRetrieve (plan_id pl)) s)))
   \<and> (plans_retrieve (stripe env) (plan_id pl) = Inl err \<and> \<not> no_such_plan err \<longrightarrow>
      getOrCreatePlan env pl s = (Fail (Upstream err), log_call (PlansRetrieve (plan_id pl)) s)
      \<and> (isSubscription (r_payment req) \<and> charge_plan env req = pl \<longrightarrow>
           createCharge env req pm s = (Fail (Upstream err), log_call (PlansRetrieve (plan_id pl)) s)))"
  by (auto simp: getOrCreatePlan_def createCharge_def thenS_def Let_def split: sum.splits)

theorem getOrCreatePlan_resolves_witness:
  "(plans_retrieve (stripe env_plan_found) (plan_id monthly_plan) = Inr monthly_plan
    \<and> getOrCreatePlan env_plan_found monthly_plan empty_state
        = (Done monthly_plan, empty_state\<lparr>calls := [PlansRetrieve ''PLAN'']\<rparr>))
   \<and> (plans_retrieve (stripe env_ok) (plan_id monthly_plan) = Inl not_found_error
    \<and> no_such_plan not_found_error
    \<and> getOrCreatePlan env_ok monthly_plan empty_state
        = (Done monthly_plan, empty_state\<lparr>calls := [PlansRetrieve ''PLAN'', PlansCreate monthly_plan]\<rparr>))
   \<and> (plans_retrieve (stripe env_plan_unreachable) (plan_id monthly_plan) = Inl some_error
    \<and> \<not> no_such_plan some_error
    \<and> isSubscription (r_payment monthly_request)
    \<and> charge_plan env_plan_unreachable monthly_request = monthly_plan
    \<and> getOrCreatePlan env_plan_unreachable monthly_plan empty_state
        = (Fail (Upstream some_error), empty_state\<lparr>calls := [PlansRetrieve ''PLAN'']\<rparr>)
    \<and> createCharge env_plan_unreachable monthly_request stored_method empty_state
        = (Fail (Upstream some_error), empty_state\<lparr>calls := [PlansRetrieve ''PLAN'']\<rparr>))"
  using getOrCreatePlan_resolves [of env_plan_found monthly_plan monthly_plan empty_state]
    getOrCreatePlan_resolves [of env_ok monthly_plan _ empty_state not_found_error]
    getOrCreatePlan_resolves [of env_plan_unreachable monthly_plan _ empty_state some_error
      monthly_request stored_method]
  by (simp add: concrete_defs charge_plan_def no_such_plan_def log_call_def isSubscription_def
        currency_of_def amount_of_def Let_def)

subsection \<open>The validations\<close>

text \<open>
  Claim C8, as the code has it. A request to \<^verbatim>\<open>post\<close> with an interval that is given and
  is neither month nor year, or without a charge token, or without an amount or with the
  amount zero, and a request to \<^verbatim>\<open>paypalDonation\<close> with an interval other than month or
  year (a missing one included), or without an amount or with the amount zero, is answered
  with a BadRequest error and the state as it was: no row is stored and no provider is
  called. The two workflows give the same answer to a bad interval that is given, and to a
  missing or zero amount of a request that passes their earlier checks.
\<close>

theorem validation_rejects:
  "((truthy_str (p_interval (r_payment req)) \<and> \<not> isSubscription (r_payment req))
      \<or> \<not> truthy_str (p_stripeToken (r_payment req))
      \<or> \<not> truthy_int (p_amount (r_payment req))
     \<longrightarrow> (\<exists>msg. post env req s = (Next (BadRequest msg), s)))
   \<and> (\<not> isSubscription (r_payment req) \<or> \<not> truthy_int (p_amount (r_payment req))
     \<longrightarrow> (\<exists>msg. paypalDonation env req s = (Next (BadRequest msg), s)))
   \<and> (truthy_str (p_interval (r_payment req)) \<and> \<not> isSubscription (r_payment req)
     \<longrightarrow> post env req s = (Next (BadRequest ''Interval should be month or year.''), s)
       \<and> paypalDonation env req s = (Next (BadRequest ''Interval should be month or year.''), s))
   \<and> (isSubscription (r_payment req) \<and> truthy_str (p_stripeToken (r_payment req))
        \<and> \<not> truthy_int (p_amount (r_payment req))
     \<longrightarrow> post env req s = (Next (BadRequest ''Payment Amount missing.''), s)
       \<and> paypalDonation env req s = (Next (BadRequest ''Payment Amount missing.''), s))"
  by (simp add: post_def paypalDonation_def Let_def)

theorem validation_rejects_witness:
  "truthy_str (p_interval (r_payment week_request))
   \<and> \<not> isSubscription (r_payment week_request)
   \<and> post env_ok week_request empty_state
       = (Next (BadRequest ''Interval should be month or year.''), empty_state)
   \<and> paypalDonation env_ok week_request empty_state
       = (Next (BadRequest ''Interval should be month or year.''), empty_state)
   \<and> \<not> truthy_str (p_stripeToken (r_payment wallet_request))
   \<and> post env_ok wallet_request empty_state = (Next (BadRequest ''Stripe Token missing.''), empty_state)
   \<and> isSubscription (r_payment no_amount_request)
   \<and> truthy_str (p_stripeToken (r_payment no_amount_request))
   \<and> \<not> truthy_int (p_amount (r_payment no_amount_request))
   \<and> post env_ok no_amount_request empty_state
       = (Next (BadRequest ''Payment Amount missing.''), empty_state)
   \<and> paypalDonation env_ok no_amount_request empty_state
       = (Next (BadRequest ''Payment Amount missing.''), empty_state)"
  using validation_rejects [of week_request env_ok empty_state]
    validation_rejects [of wallet_request env_ok empty_state]
    validation_rejects [of no_amount_request env_ok empty_state]
  by (simp add: concrete_defs isSubscription_def post_def Let_def)

text \<open>
  Claim C8, as stated, also has every non-positive amount rejected before the graph starts.
  The amount \<open>- 5\<close> is not: the check is \<^verbatim>\<open>!payment.amount\<close>, which only zero and a missing
  amount satisfy. With a valid token and no interval, \<^verbatim>\<open>post\<close> goes on to create a customer
  and a charge of \<open>- 500\<close> at the provider and stores a donation of \<open>- 500\<close>; with the interval
  month, \<^verbatim>\<open>paypalDonation\<close> goes on to the provider and answers with the approval links.
\<close>

theorem negative_amount_not_rejected:
  "p_amount (r_payment negative_request) = Some (- 5)
   \<and> fst (post env_ok negative_request empty_state) = NoCallback
   \<and> calls (snd (post env_ok negative_request empty_state))
       = [CustomersCreate (Some ''tok_valid'') (Some ''donor@example.org''),
          ChargesCreate (- 500) ''USD'' ''cus_1'']
   \<and> map d_amount (donations (snd (post env_ok negative_request empty_state))) = [- 500]
   \<and> p_amount (r_payment negative_wallet_request) = Some (- 5)
   \<and> fst (paypalDonation env_ok negative_wallet_request empty_state)
       = Sent (PaypalSuccess [''https://paypal.example/approve''])
   \<and> map t_amount (transactions (snd (paypalDonation env_ok negative_wallet_request empty_state)))
       = [Some (- 5)]"
  by (simp add: step_defs wallet_defs concrete_defs)

subsection \<open>The donor acknowledgment\<close>


text \<open>
  Were the name bound, the step would call back without an error whatever the mailer does,
  since the mailer's answer is not looked at.
\<close>

lemma sendThankYouEmail_body_best_effort:
  "r_user req = Some u \<Longrightarrow> fst (sendThankYouEmail_body (Some d) env req s) = Done ()"
  by (simp add: sendThankYouEmail_body_def)

subsection \<open>Reuse of the payment method\<close>

lemma getGroupStripeAccount_state: "snd (getGroupStripeAccount env req s) = s"
  by (simp add: getGroupStripeAccount_def split: sum.splits option.splits)

lemma getGroupStripeAccount_result:
  "(\<exists>c. getGroupStripeAccount env req s = (Done c, s)) \<or> (\<exists>e. getGroupStripeAccount env req s = (Fail e, s))"
  by (simp add: getGroupStripeAccount_def split: sum.splits option.splits)

lemma getExistingPaymentMethod_result:
  "getExistingPaymentMethod env req s = (Done (PaymentMethod_find (p_stripeToken (r_payment req)) s), s)
   \<or> (\<exists>e. getExistingPaymentMethod env req s = (Fail e, s))"
  by (simp add: getExistingPaymentMethod_def PaymentMethod_find_def split: option.splits)

lemma createCustomer_existing: "createCustomer env req (Some pm) s = (Done (Existing pm), s)"
  by (simp add: createCustomer_def)

lemma createPaymentMethod_existing: "createPaymentMethod env req (Some pm) cust s = (Done pm, s)"
  by (simp add: createPaymentMethod_def)

text \<open>The charge step only adds calls to the log: those of one charge or of one subscription.\<close>

lemma createCharge_calls:
  "\<exists>r new. createCharge env req pm s = (r, s\<lparr>calls := calls s @ new\<rparr>)
     \<and> list_all (\<lambda>c. \<not> is_customer_creation c
                     \<and> (call_amount c = None \<or> call_amount c = Some (amount_of (r_payment req) * 100))) new
     \<and> (List.map_filter charged_customer new = [] \<or> List.map_filter charged_customer new = [pm_serviceId pm])"
  by (auto simp: createCharge_def getOrCreatePlan_def charge_plan_def thenS_def log_call_def Let_def
        List.map_filter_def split: sum.splits)

lemma createDonation_result:
  "fst (createDonation env req ch s) = Hang \<or> (\<exists>x. fst (createDonation env req ch s) = Throw x)"
  by (auto simp: createDonation_def Let_def split: option.splits)


lemma createDonation_others:
  "paymentMethods (snd (createDonation env req ch s)) = paymentMethods s"
  "calls (snd (createDonation env req ch s)) = calls s"
  "transactions (snd (createDonation env req ch s)) = transactions s"
  "subscriptions (snd (createDonation env req ch s)) = subscriptions s"
  "userGroups (snd (createDonation env req ch s)) = userGroups s"
  "users (snd (createDonation env req ch s)) = users s"
  by (auto simp: createDonation_def Let_def split: option.splits)

lemma thenS_createDonation:
  "snd (thenS (createDonation env req ch) g s) = snd (createDonation env req ch s)"
  using createDonation_result [of env req ch s]
  by (cases "createDonation env req ch s") (auto simp: thenS_def split: step.splits)

lemma preserves_createDonation:
  "(\<And>s. R s (snd (createDonation env req ch s))) \<Longrightarrow> preserves R (thenS (createDonation env req ch) g)"
  by (simp add: preserves_def thenS_createDonation)

text \<open>What the card workflow does once a payment method is at hand.\<close>

lemma post_graph_existing:
  assumes "PaymentMethod_find (p_stripeToken (r_payment req)) s = Some pm"
  shows "snd (post_graph env req s) = s
       \<or> (\<exists>r s1. createCharge env req pm s = (r, s1)
             \<and> (snd (post_graph env req s) = s1
                \<or> (\<exists>ch. r = Done ch \<and> snd (post_graph env req s) = snd (createDonation env req ch s1))))"
proof -
  from getGroupStripeAccount_result [of env req s] show ?thesis
  proof (elim disjE exE)
    fix e assume "getGroupStripeAccount env req s = (Fail e, s)"
    then show ?thesis by (simp add: post_graph_def)
  next
    fix c assume g: "getGroupStripeAccount env req s = (Done c, s)"
    from getExistingPaymentMethod_result [of env req s] show ?thesis
    proof (elim disjE exE)
      fix e assume "getExistingPaymentMethod env req s = (Fail e, s)"
      with g show ?thesis by (simp add: post_graph_def)
    next
      assume "getExistingPaymentMethod env req s
                = (Done (PaymentMethod_find (p_stripeToken (r_payment req)) s), s)"
      with assms have x: "getExistingPaymentMethod env req s = (Done (Some pm), s)" by simp
      obtain r s1 where c: "createCharge env req pm s = (r, s1)" by (cases "createCharge env req pm s")
      show ?thesis
      proof (cases r)
        case (Done ch)
        with g x c show ?thesis
          by (simp add: post_graph_def createCustomer_existing createPaymentMethod_existing
                thenS_createDonation)
      qed (use g x c in \<open>simp_all add: post_graph_def createCustomer_existing createPaymentMethod_existing\<close>)
    qed
  qed
qed

lemma post_state:
  "snd (post env req s) = s \<or> snd (post env req s) = snd (post_graph env req s)"
  by (cases "post_graph env req s")
     (simp add: post_def post_complete_def Let_def split: step.splits option.splits)

text \<open>
  Claim C5. When the storage holds a payment method for the request's token and the card
  provider (as it does once a first request with that token has stored one), a request to
  \<^verbatim>\<open>post\<close> stores no payment method, makes no call that creates a customer at the provider,
  and the charge or subscription it may create is made for the provider customer that the
  existing payment method refers to.
\<close>

theorem post_reuses_payment_method:
  assumes "PaymentMethod_find (p_stripeToken (r_payment req)) s = Some pm"
  shows "paymentMethods (snd (post env req s)) = paymentMethods s
     \<and> customer_creations (snd (post env req s)) = customer_creations s
     \<and> (charged_customers (snd (post env req s)) = charged_customers s
        \<or> charged_customers (snd (post env req s)) = charged_customers s @ [pm_serviceId pm])"
proof -
  define P where "P = (\<lambda>s'. paymentMethods s' = paymentMethods s
     \<and> customer_creations s' = customer_creations s
     \<and> (charged_customers s' = charged_customers s
        \<or> charged_customers s' = charged_customers s @ [pm_serviceId pm]))"
  have same: "P s" by (simp add: P_def)
  obtain r new where c: "createCharge env req pm s = (r, s\<lparr>calls := calls s @ new\<rparr>)"
    and new: "list_all (\<lambda>c. \<not> is_customer_creation c) new"
      "List.map_filter charged_customer new = [] \<or> List.map_filter charged_customer new = [pm_serviceId pm]"
    using createCharge_calls [of env req pm s] by (auto simp: list_all_iff)
  have "filter is_customer_creation new = []"
    using new(1) by (simp add: list_all_iff filter_empty_conv)
  with new(2) have charged: "P (s\<lparr>calls := calls s @ new\<rparr>)"
    by (auto simp: P_def customer_creations_def charged_customers_def List.map_filter_def)
  then have donated: "P (snd (createDonation env req ch (s\<lparr>calls := calls s @ new\<rparr>)))" for ch
    by (simp add: P_def customer_creations_def charged_customers_def createDonation_others)
  from post_graph_existing [OF assms, of env] c
  have "snd (post_graph env req s) = s
      \<or> snd (post_graph env req s) = s\<lparr>calls := calls s @ new\<rparr>
      \<or> (\<exists>ch. snd (post_graph env req s) = snd (createDonation env req ch (s\<lparr>calls := calls s @ new\<rparr>)))"
    by auto
  with same charged donated have "P (snd (post_graph env req s))" by auto
  with same post_state [of env req s] have "P (snd (post env req s))" by auto
  then show ?thesis by (simp add: P_def)
qed

theorem post_reuses_payment_method_witness:
  "PaymentMethod_find (p_stripeToken (r_payment one_time_request))
       (snd (post env_ok one_time_request empty_state)) = Some stored_method
   \<and> paymentMethods (snd (post env_ok one_time_request (snd (post env_ok one_time_request empty_state))))
       = [stored_method]
   \<and> customer_creations (snd (post env_ok one_time_request (snd (post env_ok one_time_request empty_state))))
       = [CustomersCreate (Some ''tok_valid'') (Some ''donor@example.org'')]
   \<and> charged_customers (snd (post env_ok one_time_request (snd (post env_ok one_time_request empty_state))))
       = [''cus_1'', ''cus_1'']"
proof -
  define s1 where "s1 = snd (post env_ok one_time_request empty_state)"
  have first: "s1
      = \<lparr>paymentMethods = [stored_method],
         donations = [\<lparr>d_UserId = 1, d_CollectiveId = 1, d_currency = ''USD'', d_amount = 1000,
                       d_title = ''Donation to Collective'', d_subscription = None\<rparr>],
         transactions = [], subscriptions = [], userGroups = [], users = [],
         calls = [CustomersCreate (Some ''tok_valid'') (Some ''donor@example.org''),
                  ChargesCreate 1000 ''USD'' ''cus_1'']\<rparr>"
    unfolding s1_def by (simp add: step_defs concrete_defs)
  have found: "PaymentMethod_find (p_stripeToken (r_payment one_time_request)) s1 = Some stored_method"
    unfolding first by (simp add: PaymentMethod_find_def one_time_request_def stored_method_def)
  note reuse = post_reuses_payment_method [OF found, of env_ok]
  have methods: "paymentMethods (snd (post env_ok one_time_request s1)) = [stored_method]"
    using reuse by (simp add: first)
  have creations: "customer_creations (snd (post env_ok one_time_request s1))
      = [CustomersCreate (Some ''tok_valid'') (Some ''donor@example.org'')]"
    using reuse by (simp add: first customer_creations_def)
  have "calls (snd (post env_ok one_time_request s1))
      = [CustomersCreate (Some ''tok_valid'') (Some ''donor@example.org''),
         ChargesCreate 1000 ''USD'' ''cus_1'', ChargesCreate 1000 ''USD'' ''cus_1'']"
    unfolding first by (simp add: step_defs concrete_defs)
  then have charged: "charged_customers (snd (post env_ok one_time_request s1)) = [''cus_1'', ''cus_1'']"
    by (simp add: charged_customers_def List.map_filter_def)
  from found methods creations charged show ?thesis
    unfolding s1_def by simp
qed

subsection \<open>The membership grant\<close>

lemma UserGroup_find_None: "UserGroup_find gid uid roles_BACKER s = None \<longleftrightarrow> backer_rows gid uid s = []"
  by (auto simp: UserGroup_find_def backer_rows_def find_None_iff filter_empty_conv)

lemma UserGroup_find_Some:
  "UserGroup_find gid uid roles_BACKER s = Some x \<Longrightarrow> backer_rows gid uid s \<noteq> []"
  using UserGroup_find_None [of gid uid s] by simp

lemma addUserWithRole_Done:
  "addUserWithRole env g u roles_BACKER s = (Done x, s1) \<Longrightarrow>
     backer_rows (g_id g) (u_id u) s1
       = backer_rows (g_id g) (u_id u) s @ [\<lparr>ug_GroupId = g_id g, ug_UserId = u_id u, ug_role = roles_BACKER\<rparr>]"
  by (auto simp: addUserWithRole_def store_def backer_rows_def split: option.splits)

lemma addUserToGroup_member:
  "r_user req = Some u \<Longrightarrow> backer_rows (g_id (r_group req)) (u_id u) s \<noteq> [] \<Longrightarrow>
     userGroups (snd (addUserToGroup env req s)) = userGroups s"
  by (auto simp: addUserToGroup_def UserGroup_find_None split: option.splits)

lemma addUserToGroup_Done:
  assumes "r_user req = Some u" and "addUserToGroup env req s = (Done x, s1)"
  shows "backer_rows (g_id (r_group req)) (u_id u) s1 \<noteq> []
     \<and> (backer_rows (g_id (r_group req)) (u_id u) s = [] \<longrightarrow>
          length (backer_rows (g_id (r_group req)) (u_id u) s1) = 1)"
proof (cases "UserGroup_find (g_id (r_group req)) (u_id u) roles_BACKER s")
  case None
  with assms have "addUserWithRole env (r_group req) u roles_BACKER s = (Done x, s1)"
    by (simp add: addUserToGroup_def split: option.splits)
  from addUserWithRole_Done [OF this] show ?thesis by simp
next
  case (Some row)
  with assms have "s1 = s" by (simp add: addUserToGroup_def split: option.splits)
  with UserGroup_find_Some [OF Some] show ?thesis by simp
qed

lemma callback_addUserToGroup_member:
  "backer_rows (g_id (c_group req)) (u_id u) s \<noteq> [] \<Longrightarrow>
     userGroups (snd (callback_addUserToGroup env req u s)) = userGroups s"
  by (auto simp: callback_addUserToGroup_def UserGroup_find_None split: option.splits)

lemma callback_addUserToGroup_Done:
  assumes "callback_addUserToGroup env req u s = (Done x, s1)"
  shows "backer_rows (g_id (c_group req)) (u_id u) s1 \<noteq> []
     \<and> (backer_rows (g_id (c_group req)) (u_id u) s = [] \<longrightarrow>
          length (backer_rows (g_id (c_group req)) (u_id u) s1) = 1)"
proof (cases "UserGroup_find (g_id (c_group req)) (u_id u) roles_BACKER s")
  case None
  with assms have "addUserWithRole env (c_group req) u roles_BACKER s = (Done x, s1)"
    by (simp add: callback_addUserToGroup_def split: option.splits)
  from addUserWithRole_Done [OF this] show ?thesis by simp
next
  case (Some row)
  with assms have "s1 = s" by (simp add: callback_addUserToGroup_def split: option.splits)
  with UserGroup_find_Some [OF Some] show ?thesis by simp
qed

text \<open>
  Claim C6. The membership step of either workflow, run when the user already has a BACKER
  row for the collective, leaves the membership rows as they are. Hence a second run after
  a run that called back without an error adds nothing, and when there was no such row
  before the first run there is exactly one after the two.
\<close>

theorem membership_grant_idempotent:
  "(r_user req = Some u \<and> backer_rows (g_id (r_group req)) (u_id u) s \<noteq> [] \<longrightarrow>
      userGroups (snd (addUserToGroup env req s)) = userGroups s)
   \<and> (backer_rows (g_id (c_group creq)) (u_id u) s \<noteq> [] \<longrightarrow>
      userGroups (snd (callback_addUserToGroup env creq u s)) = userGroups s)
   \<and> (r_user req = Some u \<and> addUserToGroup env req s = (Done (), sa) \<longrightarrow>
      userGroups (snd (addUserToGroup envb req sa)) = userGroups sa
      \<and> (backer_rows (g_id (r_group req)) (u_id u) s = [] \<longrightarrow>
           length (backer_rows (g_id (r_group req)) (u_id u) (snd (addUserToGroup envb req sa))) = 1))
   \<and> (callback_addUserToGroup env creq u s = (Done (), sb) \<longrightarrow>
      userGroups (snd (callback_addUserToGroup envb creq u sb)) = userGroups sb
      \<and> (backer_rows (g_id (c_group creq)) (u_id u) s = [] \<longrightarrow>
           length (backer_rows (g_id (c_group creq)) (u_id u) (snd (callback_addUserToGroup envb creq u sb))) = 1))"
proof (intro conjI impI)
  assume a: "r_user req = Some u \<and> addUserToGroup env req s = (Done (), sa)"
  then have m: "backer_rows (g_id (r_group req)) (u_id u) sa \<noteq> []"
    using addUserToGroup_Done [of req u env s "()" sa] by simp
  with a show same: "userGroups (snd (addUserToGroup envb req sa)) = userGroups sa"
    by (simp add: addUserToGroup_member)
  assume "backer_rows (g_id (r_group req)) (u_id u) s = []"
  with a have "length (backer_rows (g_id (r_group req)) (u_id u) sa) = 1"
    using addUserToGroup_Done [of req u env s "()" sa] by simp
  with same show "length (backer_rows (g_id (r_group req)) (u_id u) (snd (addUserToGroup envb req sa))) = 1"
    by (simp add: backer_rows_def)
next
  assume a: "callback_addUserToGroup env creq u s = (Done (), sb)"
  then have m: "backer_rows (g_id (c_group creq)) (u_id u) sb \<noteq> []"
    using callback_addUserToGroup_Done [of env creq u s "()" sb] by simp
  then show same: "userGroups (snd (callback_addUserToGroup envb creq u sb)) = userGroups sb"
    by (simp add: callback_addUserToGroup_member)
  assume "backer_rows (g_id (c_group creq)) (u_id u) s = []"
  with a have "length (backer_rows (g_id (c_group creq)) (u_id u) sb) = 1"
    using callback_addUserToGroup_Done [of env creq u s "()" sb] by simp
  with same show "length (backer_rows (g_id (c_group creq)) (u_id u) (snd (callback_addUserToGroup envb creq u sb))) = 1"
    by (simp add: backer_rows_def)
qed (simp_all add: addUserToGroup_member callback_addUserToGroup_member)

theorem membership_grant_idempotent_witness:
  "r_user one_time_request = Some donor
   \<and> backer_rows (g_id (r_group one_time_request)) (u_id donor) member_state \<noteq> []
   \<and> userGroups (snd (addUserToGroup env_ok one_time_request member_state)) = userGroups member_state
   \<and> backer_rows (g_id (c_group wallet_callback)) (u_id donor) member_state \<noteq> []
   \<and> userGroups (snd (callback_addUserToGroup env_ok wallet_callback donor member_state))
       = userGroups member_state
   \<and> backer_rows (g_id (r_group one_time_request)) (u_id donor) empty_state = []
   \<and> addUserToGroup env_ok one_time_request empty_state = (Done (), member_state)
   \<and> length (backer_rows (g_id (r_group one_time_request)) (u_id donor)
               (snd (addUserToGroup env_ok one_time_request member_state))) = 1
   \<and> backer_rows (g_id (c_group wallet_callback)) (u_id donor) empty_state = []
   \<and> callback_addUserToGroup env_ok wallet_callback donor empty_state = (Done (), member_state)
   \<and> length (backer_rows (g_id (c_group wallet_callback)) (u_id donor)
               (snd (callback_addUserToGroup env_ok wallet_callback donor member_state))) = 1"
proof -
  have rows: "backer_rows (g_id (r_group one_time_request)) (u_id donor) member_state \<noteq> []"
    "backer_rows (g_id (c_group wallet_callback)) (u_id donor) member_state \<noteq> []"
    "backer_rows (g_id (r_group one_time_request)) (u_id donor) empty_state = []"
    "backer_rows (g_id (c_group wallet_callback)) (u_id donor) empty_state = []"
    by (simp_all add: backer_rows_def roles_BACKER_def concrete_defs)
  have runs: "r_user one_time_request = Some donor"
    "addUserToGroup env_ok one_time_request empty_state = (Done (), member_state)"
    "callback_addUserToGroup env_ok wallet_callback donor empty_state = (Done (), member_state)"
    by (simp_all add: step_defs wallet_defs roles_BACKER_def concrete_defs)
  from rows runs
    membership_grant_idempotent [where req = one_time_request and u = donor and s = member_state
      and creq = wallet_callback and env = env_ok]
    membership_grant_idempotent [where req = one_time_request and u = donor and s = empty_state
      and creq = wallet_callback and env = env_ok and sa = member_state and sb = member_state
      and envb = env_ok]
  show ?thesis by simp
qed


subsection \<open>More rows, and what a step leaves alone\<close>

lemma preservesD: "preserves R m \<Longrightarrow> m s = (r, s1) \<Longrightarrow> R s s1"
  by (auto simp: preserves_def dest: spec [of _ s])




text \<open>The parts of the state that each step of the wallet workflow leaves as they are.\<close>

lemma getPaypalConfig_state: "snd (getPaypalConfig env s) = s"
  by (simp add: getPaypalConfig_def split: sum.splits option.splits)






lemma update_subscription_frame:
  "transactions (snd (update_subscription env t change s)) = transactions s"
  "userGroups (snd (update_subscription env t change s)) = userGroups s"
  "users (snd (update_subscription env t change s)) = users s"
  "calls (snd (update_subscription env t change s)) = calls s"
  by (simp_all add: update_subscription_def store_def split: option.splits)

lemma executeBillingAgreement_frame:
  "transactions (snd (executeBillingAgreement env req s)) = transactions s"
  "userGroups (snd (executeBillingAgreement env req s)) = userGroups s"
  "users (snd (executeBillingAgreement env req s)) = users s"
  by (simp_all add: executeBillingAgreement_def log_call_def Let_def split: sum.splits)


lemma getOrCreateUser_frame:
  "transactions (snd (getOrCreateUser env email s)) = transactions s"
  "userGroups (snd (getOrCreateUser env email s)) = userGroups s"
  by (simp_all add: getOrCreateUser_def users_create_def Let_def split: option.splits sum.splits)


lemma callback_addUserToGroup_frame:
  "transactions (snd (callback_addUserToGroup env req u s)) = transactions s"
  "users (snd (callback_addUserToGroup env req u s)) = users s"
  by (simp_all add: callback_addUserToGroup_def addUserWithRole_def store_def split: option.splits)

lemma callback_addUserToGroup_Fail:
  "callback_addUserToGroup env req u s = (Fail e, s1) \<Longrightarrow> s1 = s"
  by (auto simp: callback_addUserToGroup_def addUserWithRole_def store_def split: option.splits)

subsection \<open>The provisional transaction\<close>




lemma callback_until_membership_transactions:
  "preserves (\<lambda>s s'. transactions s' = transactions s) (callback_until_membership env req)"
  unfolding callback_until_membership_def
  by (intro preserves_thenS preserves_return transp_same reflp_same)
     (simp_all add: preserves_def getPaypalConfig_state executeBillingAgreement_frame
        activateSubscription_def update_subscription_frame getOrCreateUser_frame
        callback_addUserToGroup_frame)


lemma callback_until_membership_Fail:
  assumes "callback_until_membership env req s = (Fail e, s1)"
  shows "userGroups s1 = userGroups s"
proof -
  have frames:
    "\<And>r sa sb. getPaypalConfig env sa = (r, sb) \<Longrightarrow> userGroups sb = userGroups sa"
    "\<And>r sa sb. executeBillingAgreement env req sa = (r, sb) \<Longrightarrow> userGroups sb = userGroups sa"
    "\<And>r a sa sb. activateSubscription env req a sa = (r, sb) \<Longrightarrow> userGroups sb = userGroups sa"
    "\<And>r m sa sb. getOrCreateUser env m sa = (r, sb) \<Longrightarrow> userGroups sb = userGroups sa"
    using getPaypalConfig_state executeBillingAgreement_frame(2) update_subscription_frame(2)
      getOrCreateUser_frame(2)
    by (metis snd_conv activateSubscription_def)+
  from assms show ?thesis
    by (auto simp: callback_until_membership_def thenS_eq_Fail thenS_eq_Done
          dest!: frames callback_addUserToGroup_Fail)
qed







lemma initiated_state_eq:
  "initiated_state =
     \<lparr>paymentMethods = [], donations = [], transactions = [provisional_transaction],
      subscriptions =
        [\<lparr>sub_id = 1, sub_amount = 5, sub_currency = ''EUR'', sub_interval = Some ''month'',
          sub_data = Some \<lparr>ag_id = ''I-1'', ag_links = [''https://paypal.example/approve'']\<rparr>,
          sub_billingAgreementId = None, sub_isActive = False, sub_activatedAt = None\<rparr>],
      userGroups = [], users = [],
      calls = [BillingPlanCreate ''EUR'' 5 ''MONTH'' 1, BillingPlanActivate ''P-1'',
               BillingAgreementCreate ''P-1'']\<rparr>"
  by (simp add: initiated_state_def step_defs wallet_defs concrete_defs)





subsection \<open>Failures of the callback\<close>

text \<open>
  Claim C4, as the code has it. A callback without token is rejected with the state as it
  was. When a step of the callback up to and including the membership grant fails, the
  handler passes that error on, no transaction row has changed (none is revealed) and no
  membership row has been stored. When those steps succeed and the storage refuses the
  restore, the handler passes that error on and no transaction row has changed; the
  membership row has been stored by then.
\<close>

theorem callback_failure_keeps_transaction_provisional:
  "(\<not> truthy_str (c_token req) \<longrightarrow>
      paypalCallback env req s = (Next (BadRequest ''Token to execute agreement is missing''), s))
   \<and> (truthy_str (c_token req) \<and> callback_until_membership env req s = (Fail e, sa) \<longrightarrow>
      paypalCallback env req s = (Next e, sa)
      \<and> transactions sa = transactions s \<and> userGroups sa = userGroups s)
   \<and> (truthy_str (c_token req) \<and> callback_until_membership env req s = (Done u, sb)
        \<and> transaction_restore (storage env) = Some err \<longrightarrow>
      paypalCallback env req s = (Next (Upstream err), sb) \<and> transactions sb = transactions s)"
proof (intro conjI impI)
  assume "\<not> truthy_str (c_token req)"
  then show "paypalCallback env req s = (Next (BadRequest ''Token to execute agreement is missing''), s)"
    by (simp add: paypalCallback_def)
next
  assume a: "truthy_str (c_token req) \<and> callback_until_membership env req s = (Fail e, sa)"
  then show "paypalCallback env req s = (Next e, sa)"
    by (simp add: paypalCallback_def callback_graph_def callback_complete_def)
  from a show "transactions sa = transactions s"
    using preservesD [OF callback_until_membership_transactions] by blast
  from a show "userGroups sa = userGroups s"
    using callback_until_membership_Fail by blast
next
  assume a: "truthy_str (c_token req) \<and> callback_until_membership env req s = (Done u, sb)
        \<and> transaction_restore (storage env) = Some err"
  then show "paypalCallback env req s = (Next (Upstream err), sb)"
    by (simp add: paypalCallback_def callback_graph_def callback_complete_def updateTransaction_def
          store_def)
  from a show "transactions sb = transactions s"
    using preservesD [OF callback_until_membership_transactions] by blast
qed


theorem callback_failure_keeps_transaction_provisional_witness:
  "\<not> truthy_str (c_token (wallet_callback\<lparr>c_token := None\<rparr>))
   \<and> paypalCallback env_ok (wallet_callback\<lparr>c_token := None\<rparr>) initiated_state
       = (Next (BadRequest ''Token to execute agreement is missing''), initiated_state)
   \<and> truthy_str (c_token wallet_callback)
   \<and> callback_until_membership env_execute_fails wallet_callback initiated_state
       = (Fail (Upstream some_error), log_call (BillingAgreementExecute ''EC-1'') initiated_state)
   \<and> paypalCallback env_execute_fails wallet_callback initiated_state
       = (Next (Upstream some_error), log_call (BillingAgreementExecute ''EC-1'') initiated_state)
   \<and> transactions (log_call (BillingAgreementExecute ''EC-1'') initiated_state) = [provisional_transaction]
   \<and> userGroups (log_call (BillingAgreementExecute ''EC-1'') initiated_state) = []
   \<and> callback_until_membership env_restore_fails wallet_callback initiated_state
       = (Done \<lparr>u_id = 1, u_email = ''payer@example.org'', u_hasFullAccount = False\<rparr>, activated_state)
   \<and> transaction_restore (storage env_restore_fails) = Some some_error
   \<and> paypalCallback env_restore_fails wallet_callback initiated_state
       = (Next (Upstream some_error), activated_state)
   \<and> transactions activated_state = [provisional_transaction]"
proof -
  have failed: "callback_until_membership env_execute_fails wallet_callback initiated_state
       = (Fail (Upstream some_error), log_call (BillingAgreementExecute ''EC-1'') initiated_state)"
    by (simp add: initiated_state_eq step_defs wallet_defs concrete_defs)
  have granted: "callback_until_membership env_restore_fails wallet_callback initiated_state
       = (Done \<lparr>u_id = 1, u_email = ''payer@example.org'', u_hasFullAccount = False\<rparr>, activated_state)"
    by (simp add: activated_state_def initiated_state_eq step_defs wallet_defs concrete_defs roles_BACKER_def)
  have no_token: "\<not> truthy_str (c_token (wallet_callback\<lparr>c_token := None\<rparr>))"
    and token: "truthy_str (c_token wallet_callback)"
    and refused: "transaction_restore (storage env_restore_fails) = Some some_error"
    and before: "transactions initiated_state = [provisional_transaction]" "userGroups initiated_state = []"
    by (simp_all add: initiated_state_eq wallet_callback_def env_restore_fails_def env_ok_def storage_ok_def)
  from no_token callback_failure_keeps_transaction_provisional
      [where req = "wallet_callback\<lparr>c_token := None\<rparr>" and env = env_ok and s = initiated_state]
  have r1: "paypalCallback env_ok (wallet_callback\<lparr>c_token := None\<rparr>) initiated_state
       = (Next (BadRequest ''Token to execute agreement is missing''), initiated_state)"
    by blast
  from token failed callback_failure_keeps_transaction_provisional
      [where req = wallet_callback and env = env_execute_fails and s = initiated_state
         and e = "Upstream some_error" and sa = "log_call (BillingAgreementExecute ''EC-1'') initiated_state"]
  have r2: "paypalCallback env_execute_fails wallet_callback initiated_state
       = (Next (Upstream some_error), log_call (BillingAgreementExecute ''EC-1'') initiated_state)"
    "transactions (log_call (BillingAgreementExecute ''EC-1'') initiated_state) = transactions initiated_state"
    "userGroups (log_call (BillingAgreementExecute ''EC-1'') initiated_state) = userGroups initiated_state"
    by blast+
  from token granted refused callback_failure_keeps_transaction_provisional
      [where req = wallet_callback and env = env_restore_fails and s = initiated_state
         and u = "\<lparr>u_id = 1, u_email = ''payer@example.org'', u_hasFullAccount = False\<rparr>"
         and sb = activated_state and err = some_error]
  have r3: "paypalCallback env_restore_fails wallet_callback initiated_state
       = (Next (Upstream some_error), activated_state)"
    "transactions activated_state = transactions initiated_state"
    by blast+
  from no_token token refused failed granted r1 r2 r3 before show ?thesis
    by (simp only: simp_thms)
qed

text \<open>
  Claim C4, as stated, has no transaction revealed and no membership row created whenever
  any step fails. The last step restores the transaction and then associates the user; when
  the association fails, the step fails with the transaction already in the default scope,
  and the membership row was stored by the step before.
\<close>

theorem callback_failure_after_restore:
  "fst (paypalCallback env_setUser_fails wallet_callback initiated_state) = Next (Upstream some_error)
   \<and> visible_transactions initiated_state = []
   \<and> map t_id (visible_transactions (snd (paypalCallback env_setUser_fails wallet_callback initiated_state))) = [1]
   \<and> userGroups initiated_state = []
   \<and> userGroups (snd (paypalCallback env_setUser_fails wallet_callback initiated_state))
       = [\<lparr>ug_GroupId = 1, ug_UserId = 1, ug_role = ''BACKER''\<rparr>]"
  by (simp add: initiated_state_eq step_defs wallet_defs concrete_defs roles_BACKER_def
        visible_transactions_def visible_def)

subsection \<open>Units of the amounts\<close>



















subsection \<open>No transaction from the card workflow\<close>

text \<open>
  Whatever the request and the collaborators, \<^verbatim>\<open>post\<close> leaves the transactions as they
  are: the only step that stores one waits for \<^verbatim>\<open>createDonation\<close>.
\<close>

lemma post_graph_transactions:
  "preserves (\<lambda>s s'. transactions s' = transactions s) (post_graph env req)"
  unfolding post_graph_def
  by (intro preserves_createDonation preserves_thenS transp_same)
     (simp_all add: preserves_def getGroupStripeAccount_state getExistingPaymentMethod_def
        createCustomer_def createPaymentMethod_def store_def log_call_def createDonation_others
        createCharge_def getOrCreatePlan_def thenS_def Let_def
        split: option.splits sum.splits)

lemma post_stores_no_transaction: "transactions (snd (post env req s)) = transactions s"
  using post_state [of env req s] post_graph_transactions [of env req]
  by (auto simp: preserves_def)

end
